theory Spec2Isabelle
  imports Main "HOL-Library.Sublist" "HOL-Library.AList"
begin

section \<open>Python strings\<close>

text \<open>
  A Python \<open>str\<close> is a sequence of Unicode code points; it is modelled as a list of
  natural numbers. A string of the script's own text is written \<open>ustr ''...''\<close>. Bytes,
  as a file holds them, are the 8-bit characters of \<open>string\<close>.
\<close>

type_synonym uchar = nat

type_synonym pystr = "uchar list"

definition ustr :: "string \<Rightarrow> pystr" where
  "ustr s = map of_char s"

definition NL :: uchar where
  "NL = 10"

definition CR :: uchar where
  "CR = 13"

text \<open>\<open>str.isspace\<close>, for one character: the white space that \<open>strip\<close> removes.\<close>

definition is_space :: "uchar \<Rightarrow> bool" where
  "is_space c =
     (c \<in> set [0x09, 0x0A, 0x0B, 0x0C, 0x0D, 0x1C, 0x1D, 0x1E, 0x1F, 0x20, 0x85, 0xA0,
                0x1680, 0x2028, 0x2029, 0x202F, 0x205F, 0x3000]
      \<or> (0x2000 \<le> c \<and> c \<le> 0x200A))"

text \<open>\<open>s.strip()\<close>: leading and trailing whitespace removed.\<close>

definition py_strip :: "pystr \<Rightarrow> pystr" where
  "py_strip s = rev (dropWhile is_space (rev (dropWhile is_space s)))"

text \<open>\<open>s.rstrip("\n")\<close>: every trailing newline removed, nothing else.\<close>

definition rstrip_nl :: "pystr \<Rightarrow> pystr" where
  "rstrip_nl s = rev (dropWhile (\<lambda>c. c = NL) (rev s))"

text \<open>
  \<open>s.lower()\<close>. Below U+0100 the capitals are A-Z and those of Latin-1. For a string
  with a character from U+0100 on, the result is that of the interpreter's Unicode
  tables, which the host provides (\<open>unicode_lower\<close>, below).
\<close>

definition lower_char :: "uchar \<Rightarrow> uchar" where
  "lower_char c =
     (if (65 \<le> c \<and> c \<le> 90) \<or> (192 \<le> c \<and> c \<le> 222 \<and> c \<noteq> 215) then c + 32 else c)"

definition latin1 :: "pystr \<Rightarrow> bool" where
  "latin1 s = list_all (\<lambda>c. c < 256) s"

text \<open>\<open>s.startswith(t)\<close>, \<open>s.endswith(t)\<close> and \<open>t in s\<close>.\<close>

definition startswith :: "pystr \<Rightarrow> pystr \<Rightarrow> bool" where
  "startswith s t = (take (length t) s = t)"

definition endswith :: "pystr \<Rightarrow> pystr \<Rightarrow> bool" where
  "endswith s t = (length t \<le> length s \<and> drop (length s - length t) s = t)"

fun contains :: "pystr \<Rightarrow> pystr \<Rightarrow> bool" where
  "contains [] t = (t = [])"
| "contains (c # cs) t = (startswith (c # cs) t \<or> contains cs t)"

text \<open>\<open>s.split(sep)\<close> for a one-character separator, and \<open>sep.join(xs)\<close>.\<close>

fun py_split :: "uchar \<Rightarrow> pystr \<Rightarrow> pystr list" where
  "py_split sep [] = [[]]"
| "py_split sep (c # cs) =
     (if c = sep then [] # py_split sep cs
      else (case py_split sep cs of [] \<Rightarrow> [[c]] | l # ls \<Rightarrow> (c # l) # ls))"

fun py_join :: "pystr \<Rightarrow> pystr list \<Rightarrow> pystr" where
  "py_join sep [] = []"
| "py_join sep [x] = x"
| "py_join sep (x # y # ys) = x @ sep @ py_join sep (y # ys)"

text \<open>
  \<open>s.splitlines()\<close>: a line ends at \<open>\n\<close>, \<open>\r\<close>, \<open>\r\n\<close>, \<open>\v\<close>, \<open>\f\<close>, \<open>\x1c\<close>,
  \<open>\x1d\<close>, \<open>\x1e\<close>, \<open>\x85\<close>, U+2028 or U+2029; the line ends are not kept, and a
  final line end opens no further line.
\<close>

definition is_linebreak :: "uchar \<Rightarrow> bool" where
  "is_linebreak c = (c \<in> set [0x0A, 0x0B, 0x0C, 0x0D, 0x1C, 0x1D, 0x1E, 0x85, 0x2028, 0x2029])"

fun splitlines :: "pystr \<Rightarrow> pystr list" where
  "splitlines [] = []"
| "splitlines (c # cs) =
     (if c = CR then
        (case cs of
           [] \<Rightarrow> [[]]
         | d # ds \<Rightarrow> if d = NL then [] # splitlines ds else [] # splitlines (d # ds))
      else if is_linebreak c then [] # splitlines cs
      else (case splitlines cs of [] \<Rightarrow> [[c]] | l # ls \<Rightarrow> (c # l) # ls))"

text \<open>
  Reading a file in text mode with universal newlines (the default of \<open>open\<close> and of
  \<open>Path.read_text\<close>): \<open>\r\n\<close> and a lone \<open>\r\<close> are read as \<open>\n\<close>.
\<close>

fun universal_newlines :: "pystr \<Rightarrow> pystr" where
  "universal_newlines [] = []"
| "universal_newlines [c] = (if c = CR then [NL] else [c])"
| "universal_newlines (c # d # ds) =
     (if c = CR \<and> d = NL then NL # universal_newlines ds
      else if c = CR then NL # universal_newlines (d # ds)
      else c # universal_newlines (d # ds))"

text \<open>
  \<open>textwrap.dedent\<close> (CPython 3.8 to 3.13): lines of blanks and tabs only are emptied,
  the margin is the longest common prefix of the leading blanks and tabs of the other
  non-empty lines, and the margin is removed from the start of every line that has it.
\<close>

definition is_indent_char :: "uchar \<Rightarrow> bool" where
  "is_indent_char c = (c = 0x20 \<or> c = 0x09)"

definition dedent :: "pystr \<Rightarrow> pystr" where
  "dedent text =
     (let lines = map (\<lambda>l. if l \<noteq> [] \<and> list_all is_indent_char l then [] else l)
                      (py_split NL text);
          indents = map (takeWhile is_indent_char) (filter (\<lambda>l. l \<noteq> []) lines);
          margin = (case indents of [] \<Rightarrow> []
                    | i # rest \<Rightarrow> foldl longest_common_prefix i rest)
      in py_join [NL]
           (map (\<lambda>l. if margin \<noteq> [] \<and> startswith l margin
                      then drop (length margin) l else l) lines))"

section \<open>Paths\<close>

text \<open>
  A \<open>pathlib.Path\<close> is modelled as the list of the components of an absolute path; the
  empty list is the root directory. \<open>p / s\<close> parses \<open>s\<close> as pathlib does: empty and
  \<open>.\<close> components are dropped, and an absolute \<open>s\<close> replaces \<open>p\<close>. Components \<open>..\<close>
  and symbolic links are not resolved.
\<close>

type_synonym path = "pystr list"

definition path_parts :: "pystr \<Rightarrow> path" where
  "path_parts s = filter (\<lambda>c. c \<noteq> [] \<and> c \<noteq> ustr ''.'') (py_split 0x2F s)"

definition path_join :: "path \<Rightarrow> pystr \<Rightarrow> path" where
  "path_join p s = (if startswith s (ustr ''/'') then path_parts s else p @ path_parts s)"

text \<open>\<open>p / s1 / s2 / ...\<close>\<close>

definition joinpath :: "path \<Rightarrow> pystr list \<Rightarrow> path" where
  "joinpath p segs = foldl path_join p segs"

text \<open>\<open>p.parent\<close>; the root is its own parent.\<close>

definition parent :: "path \<Rightarrow> path" where
  "parent p = butlast p"

text \<open>\<open>str(p)\<close> for an absolute path and for a relative one.\<close>

definition path_str :: "path \<Rightarrow> pystr" where
  "path_str p = ustr ''/'' @ py_join (ustr ''/'') p"

definition rel_str :: "path \<Rightarrow> pystr" where
  "rel_str p = (if p = [] then ustr ''.'' else py_join (ustr ''/'') p)"

section \<open>The host, the world and the effects\<close>

text \<open>A file holds bytes.\<close>

datatype node = File string | Dir

datatype exn =
    SystemExit int
  | EOFError
  | ValueError
  | FileExistsError path
  | FileNotFoundError path
  | NotADirectoryError path
  | IsADirectoryError path
  | PermissionError path
  | UnicodeEncodeError
  | UnicodeDecodeError

text \<open>The exceptions that \<open>except OSError\<close> catches.\<close>

fun is_oserror :: "exn \<Rightarrow> bool" where
  "is_oserror (FileExistsError p) = True"
| "is_oserror (FileNotFoundError p) = True"
| "is_oserror (NotADirectoryError p) = True"
| "is_oserror (IsADirectoryError p) = True"
| "is_oserror (PermissionError p) = True"
| "is_oserror e = False"

text \<open>
  What the script reads from its host and never changes: the home directory
  (\<open>Path.home()\<close>, \<open>HOME\<close>), the commands that \<open>shutil.which\<close> resolves, the return code
  of \<open>pyenv virtualenvs\<close> (\<open>None\<close> when \<open>subprocess.run\<close> raises \<open>OSError\<close>),
  \<open>platform.system()\<close>, \<open>platform.release()\<close>, \<open>platform.python_version()\<close>,
  \<open>os.environ\<close>, and the lower-casing of the interpreter's Unicode tables for the strings
  with a character from U+0100 on.
\<close>

record host =
  home :: path
  on_path :: "pystr list"
  pyenv_virtualenvs :: "int option"
  platform_system :: pystr
  platform_release :: pystr
  python_version :: pystr
  environ :: "(pystr \<times> pystr) list"
  unicode_lower :: "pystr \<Rightarrow> pystr"

definition py_lower :: "host \<Rightarrow> pystr \<Rightarrow> pystr" where
  "py_lower h s = (if latin1 s then map lower_char s else unicode_lower h s)"

text \<open>
  \<open>os.linesep\<close>: \<open>\r\n\<close> on Windows, where \<open>platform.system()\<close> is \<open>Windows\<close>, and
  \<open>\n\<close> elsewhere. A file opened for writing in text mode writes each \<open>\n\<close> as
  \<open>os.linesep\<close>.
\<close>

definition os_linesep :: "host \<Rightarrow> pystr" where
  "os_linesep h = (if platform_system h = ustr ''Windows'' then [CR, NL] else [NL])"

definition to_linesep :: "host \<Rightarrow> pystr \<Rightarrow> pystr" where
  "to_linesep h s = concat (map (\<lambda>c. if c = NL then os_linesep h else [c]) s)"

text \<open>
  What a run changes: the file system (an association list from paths to nodes, with the
  paths that may not be written), the lines still to be read from standard input, and
  the text written to standard output.
\<close>

record world =
  fs :: "(path \<times> node) list"
  readonly :: "path list"
  stdin :: "pystr list"
  stdout :: pystr

text \<open>
  An action runs in a world and ends with a value or with a raised exception; either
  way it leaves a world behind. Nothing in the script catches \<open>SystemExit\<close>,
  \<open>EOFError\<close>, \<open>ValueError\<close>, a \<open>UnicodeError\<close> or an \<open>OSError\<close> raised by a write.
\<close>

type_synonym 'a io = "world \<Rightarrow> (exn + 'a) \<times> world"

definition io_return :: "'a \<Rightarrow> 'a io" where
  "io_return x w = (Inr x, w)"

definition io_raise :: "exn \<Rightarrow> 'a io" where
  "io_raise e w = (Inl e, w)"

definition io_bind :: "'a io \<Rightarrow> ('a \<Rightarrow> 'b io) \<Rightarrow> 'b io" where
  "io_bind m f w = (case m w of (Inl e, w') \<Rightarrow> (Inl e, w') | (Inr x, w') \<Rightarrow> f x w')"

definition io_then :: "'a io \<Rightarrow> 'b io \<Rightarrow> 'b io" where
  "io_then m k = io_bind m (\<lambda>_. k)"

fun io_seq :: "unit io list \<Rightarrow> unit io" where
  "io_seq [] = io_return ()"
| "io_seq (m # ms) = io_then m (io_seq ms)"

text \<open>\<open>sys.exit(n)\<close>\<close>

definition sys_exit :: "int \<Rightarrow> 'a io" where
  "sys_exit n = io_raise (SystemExit n)"

text \<open>
  The exit status of the process: that of \<open>sys.exit\<close>, 0 when \<open>main\<close> returns, and 1
  when the interpreter ends on an uncaught exception.
\<close>

fun exit_status :: "(exn + 'a) \<Rightarrow> int" where
  "exit_status (Inr v) = 0"
| "exit_status (Inl (SystemExit n)) = n"
| "exit_status (Inl e) = 1"

text \<open>\<open>print(s)\<close> and \<open>input(prompt)\<close>; at the end of input, \<open>input\<close> raises \<open>EOFError\<close>.\<close>

definition emit :: "pystr \<Rightarrow> world \<Rightarrow> world" where
  "emit s w = w\<lparr>stdout := stdout w @ s\<rparr>"

definition py_print :: "pystr \<Rightarrow> unit io" where
  "py_print s w = (Inr (), emit (s @ [NL]) w)"

definition py_input :: "pystr \<Rightarrow> pystr io" where
  "py_input prompt w =
     (case stdin w of
        [] \<Rightarrow> (Inl EOFError, emit prompt w)
      | l # ls \<Rightarrow> (Inr l, (emit prompt w)\<lparr>stdin := ls\<rparr>))"

subsection \<open>The file system\<close>

definition node_at :: "world \<Rightarrow> path \<Rightarrow> node option" where
  "node_at w p = (if p = [] then Some Dir else map_of (fs w) p)"

definition put_node :: "path \<Rightarrow> node \<Rightarrow> world \<Rightarrow> world" where
  "put_node p n w = w\<lparr>fs := AList.update p n (fs w)\<rparr>"

text \<open>\<open>p.exists()\<close> and \<open>p.is_dir()\<close>\<close>

definition path_exists :: "world \<Rightarrow> path \<Rightarrow> bool" where
  "path_exists w p = (node_at w p \<noteq> None)"

definition is_dir :: "world \<Rightarrow> path \<Rightarrow> bool" where
  "is_dir w p = (node_at w p = Some Dir)"

text \<open>\<open>p.iterdir()\<close>: the entries of a directory.\<close>

definition iterdir :: "path \<Rightarrow> path list io" where
  "iterdir p w =
     (case node_at w p of
        None \<Rightarrow> (Inl (FileNotFoundError p), w)
      | Some (File c) \<Rightarrow> (Inl (NotADirectoryError p), w)
      | Some Dir \<Rightarrow> (Inr (filter (\<lambda>q. q \<noteq> [] \<and> parent q = p) (map fst (fs w))), w))"

text \<open>\<open>os.mkdir(p)\<close>: one directory, in an existing, writable directory.\<close>

definition os_mkdir :: "path \<Rightarrow> unit io" where
  "os_mkdir p w =
     (case node_at w p of
        Some n \<Rightarrow> (Inl (FileExistsError p), w)
      | None \<Rightarrow>
          (case node_at w (parent p) of
             None \<Rightarrow> (Inl (FileNotFoundError p), w)
           | Some (File c) \<Rightarrow> (Inl (NotADirectoryError p), w)
           | Some Dir \<Rightarrow>
               if parent p \<in> set (readonly w) then (Inl (PermissionError p), w)
               else (Inr (), put_node p Dir w)))"

text \<open>
  \<open>p.mkdir(exist_ok=True)\<close> and \<open>p.mkdir(parents=True, exist_ok=True)\<close>, as pathlib
  writes them: \<open>os.mkdir\<close> first; on \<open>FileNotFoundError\<close> the parents are made and then
  the directory; any other \<open>OSError\<close> is ignored when the path is a directory.
\<close>

definition mkdir_exist_ok :: "path \<Rightarrow> unit io" where
  "mkdir_exist_ok p w =
     (case os_mkdir p w of
        (Inr u, w') \<Rightarrow> (Inr u, w')
      | (Inl e, w') \<Rightarrow>
          (case e of
             FileNotFoundError q \<Rightarrow> (Inl e, w')
           | _ \<Rightarrow> if is_dir w' p then (Inr (), w') else (Inl e, w')))"

function mkdir_parents :: "path \<Rightarrow> unit io" where
  "mkdir_parents p w =
     (case os_mkdir p w of
        (Inr u, w') \<Rightarrow> (Inr u, w')
      | (Inl e, w') \<Rightarrow>
          (case e of
             FileNotFoundError q \<Rightarrow>
               if p = [] then (Inl e, w')
               else (case mkdir_parents (parent p) w' of
                       (Inl e', w'') \<Rightarrow> (Inl e', w'')
                     | (Inr u, w'') \<Rightarrow> mkdir_exist_ok p w'')
           | _ \<Rightarrow> if is_dir w' p then (Inr (), w') else (Inl e, w')))"
  by pat_completeness auto
termination
  by (relation "measure (\<lambda>(p, w). length p)") (auto simp: parent_def)

declare mkdir_parents.simps [simp del]

text \<open>
  UTF-8, as \<open>encoding="utf-8"\<close> encodes and decodes: a surrogate (U+D800 to U+DFFF) has
  no encoding, and the decoder accepts only the shortest form of each character.
\<close>

definition utf8_char :: "uchar \<Rightarrow> string option" where
  "utf8_char c =
     (if c < 0x80 then Some [char_of c]
      else if c < 0x800 then Some [char_of (0xC0 + c div 64), char_of (0x80 + c mod 64)]
      else if 0xD800 \<le> c \<and> c \<le> 0xDFFF then None
      else if c < 0x10000 then
        Some [char_of (0xE0 + c div 4096), char_of (0x80 + c div 64 mod 64),
              char_of (0x80 + c mod 64)]
      else if c < 0x110000 then
        Some [char_of (0xF0 + c div 262144), char_of (0x80 + c div 4096 mod 64),
              char_of (0x80 + c div 64 mod 64), char_of (0x80 + c mod 64)]
      else None)"

fun utf8_encode :: "pystr \<Rightarrow> string option" where
  "utf8_encode [] = Some []"
| "utf8_encode (c # cs) =
     (case utf8_char c of
        None \<Rightarrow> None
      | Some b \<Rightarrow> (case utf8_encode cs of None \<Rightarrow> None | Some bs \<Rightarrow> Some (b @ bs)))"

definition is_cont :: "nat \<Rightarrow> bool" where
  "is_cont b = (0x80 \<le> b \<and> b \<le> 0xBF)"

fun utf8_dec :: "nat list \<Rightarrow> pystr option" where
  "utf8_dec [] = Some []"
| "utf8_dec (b0 # bs) =
     (if b0 < 0x80 then map_option ((#) b0) (utf8_dec bs)
      else if 0xC2 \<le> b0 \<and> b0 \<le> 0xDF then
        (case bs of
           b1 # r \<Rightarrow>
             if is_cont b1
             then map_option ((#) ((b0 - 0xC0) * 64 + (b1 - 0x80))) (utf8_dec r)
             else None
         | _ \<Rightarrow> None)
      else if 0xE0 \<le> b0 \<and> b0 \<le> 0xEF then
        (case bs of
           b1 # b2 # r \<Rightarrow>
             if is_cont b1 \<and> is_cont b2 \<and> (if b0 = 0xE0 then 0xA0 \<le> b1 else True)
                \<and> (if b0 = 0xED then b1 \<le> 0x9F else True)
             then map_option
                    ((#) ((b0 - 0xE0) * 4096 + (b1 - 0x80) * 64 + (b2 - 0x80))) (utf8_dec r)
             else None
         | _ \<Rightarrow> None)
      else if 0xF0 \<le> b0 \<and> b0 \<le> 0xF4 then
        (case bs of
           b1 # b2 # b3 # r \<Rightarrow>
             if is_cont b1 \<and> is_cont b2 \<and> is_cont b3 \<and> (if b0 = 0xF0 then 0x90 \<le> b1 else True)
                \<and> (if b0 = 0xF4 then b1 \<le> 0x8F else True)
             then map_option
                    ((#) ((b0 - 0xF0) * 262144 + (b1 - 0x80) * 4096 + (b2 - 0x80) * 64
                          + (b3 - 0x80))) (utf8_dec r)
             else None
         | _ \<Rightarrow> None)
      else None)"

definition utf8_decode :: "string \<Rightarrow> pystr option" where
  "utf8_decode bs = utf8_dec (map of_char bs)"

text \<open>
  \<open>p.write_text(s, encoding="utf-8")\<close> opens the file for writing, which creates it or
  empties it, and then writes the encoded text; a text that cannot be encoded raises
  \<open>UnicodeEncodeError\<close> and leaves the file empty. \<open>p.read_text(encoding="utf-8")\<close>
  decodes the bytes and reads the line ends as \<open>\n\<close>.
\<close>

definition open_for_writing :: "path \<Rightarrow> unit io" where
  "open_for_writing p w =
     (case node_at w p of
        Some Dir \<Rightarrow> (Inl (IsADirectoryError p), w)
      | Some (File c) \<Rightarrow>
          if p \<in> set (readonly w) then (Inl (PermissionError p), w)
          else (Inr (), put_node p (File []) w)
      | None \<Rightarrow>
          (case node_at w (parent p) of
             None \<Rightarrow> (Inl (FileNotFoundError p), w)
           | Some (File c) \<Rightarrow> (Inl (NotADirectoryError p), w)
           | Some Dir \<Rightarrow>
               if parent p \<in> set (readonly w) then (Inl (PermissionError p), w)
               else (Inr (), put_node p (File []) w)))"

definition path_write_text :: "host \<Rightarrow> path \<Rightarrow> pystr \<Rightarrow> unit io" where
  "path_write_text h p s =
     io_then (open_for_writing p)
       (\<lambda>w. case utf8_encode (to_linesep h s) of
              None \<Rightarrow> (Inl UnicodeEncodeError, w)
            | Some b \<Rightarrow> (Inr (), put_node p (File b) w))"

definition path_read_text :: "path \<Rightarrow> pystr io" where
  "path_read_text p w =
     (case node_at w p of
        None \<Rightarrow> (Inl (FileNotFoundError p), w)
      | Some Dir \<Rightarrow> (Inl (IsADirectoryError p), w)
      | Some (File c) \<Rightarrow>
          (case utf8_decode c of
             None \<Rightarrow> (Inl UnicodeDecodeError, w)
           | Some s \<Rightarrow> (Inr (universal_newlines s), w)))"

text \<open>\<open>p.relative_to(base)\<close> raises \<open>ValueError\<close> when \<open>p\<close> is not under \<open>base\<close>.\<close>

definition relative_to :: "path \<Rightarrow> path \<Rightarrow> path io" where
  "relative_to p base =
     (if prefix base p then io_return (drop (length base) p) else io_raise ValueError)"

section \<open>Checking the host\<close>

definition environ_get :: "host \<Rightarrow> pystr \<Rightarrow> pystr option" where
  "environ_get h k = map_of (environ h) k"

text \<open>
  \<open>detect_platform\<close> reads \<open>/etc/os-release\<close> on a Linux host; an \<open>OSError\<close> on
  opening or reading it is caught and ignored, a \<open>UnicodeDecodeError\<close> is not.
\<close>

definition detect_platform :: "host \<Rightarrow> pystr io" where
  "detect_platform h w =
     (let system = py_lower h (platform_system h)
      in if contains (py_lower h (platform_release h)) (ustr ''microsoft'')
            \<or> (case environ_get h (ustr ''WSL_DISTRO_NAME'') of
                  None \<Rightarrow> False | Some v \<Rightarrow> v \<noteq> [])
         then (Inr (ustr ''wsl''), w)
         else if system = ustr ''darwin'' then (Inr (ustr ''macos''), w)
         else if system = ustr ''linux'' then
           (case path_read_text [ustr ''etc'', ustr ''os-release''] w of
              (Inr d, w') \<Rightarrow>
                (Inr (if contains (py_lower h d) (ustr ''ubuntu'') then ustr ''ubuntu''
                      else ustr ''linux''), w)
            | (Inl e, w') \<Rightarrow> if is_oserror e then (Inr (ustr ''linux''), w) else (Inl e, w))
         else if system = ustr ''windows'' then (Inr (ustr ''windows''), w)
         else (Inr (ustr ''other''), w))"

definition have_command :: "host \<Rightarrow> pystr \<Rightarrow> bool" where
  "have_command h cmd = (cmd \<in> set (on_path h))"

definition check_pyenv :: "host \<Rightarrow> bool" where
  "check_pyenv h = have_command h (ustr ''pyenv'')"

definition check_pyenv_virtualenv :: "host \<Rightarrow> bool" where
  "check_pyenv_virtualenv h =
     (if \<not> check_pyenv h then False
      else (case pyenv_virtualenvs h of None \<Rightarrow> False | Some returncode \<Rightarrow> returncode = 0))"

definition check_poetry :: "host \<Rightarrow> bool" where
  "check_poetry h = have_command h (ustr ''poetry'')"

definition print_header :: "unit io" where
  \<open>print_header =
     io_seq
      [py_print (replicate 72 (0x3D :: uchar)),
       py_print (ustr ''Automated Flask Project Scaffold''),
       py_print (replicate 72 (0x3D :: uchar)),
       py_print (py_strip (dedent (concat
           [(ustr ''\<newline>''),
            (ustr ''            This helper will create a new Flask project in your home directory,\<newline>''),
            (ustr ''            with a clean, opinionated structure and starter code.\<newline>''),
            (ustr ''\<newline>''),
            (ustr ''            It supports two workflows:\<newline>''),
            (ustr ''              1) pyenv + Poetry\<newline>''),
            (ustr ''              2) pyenv + pyenv-virtualenv + requirements.txt\<newline>''),
            (ustr ''\<newline>''),
            (ustr ''            IMPORTANT:\<newline>''),
            (ustr ''            - This script assumes you already configured Git & GitHub,\<newline>''),
            (ustr ''              installed pyenv, and selected a default Python version.\<newline>''),
            (ustr ''            - It will NOT install or configure those tools for you.\<newline>''),
            (ustr ''            - Dependency installation (Flask, Flask-Login, etc.) must be\<newline>''),
            (ustr ''              done manually in your active virtual environment after the\<newline>''),
            (ustr ''              scaffold is created.\<newline>''),
            (ustr ''            '')]))),
       py_print (ustr ''\<newline>'')]\<close>

definition show_prereq_instructions :: "pystr \<Rightarrow> unit io" where
  \<open>show_prereq_instructions option =
     io_seq
      [py_print ((ustr ''\<newline>Prerequisite check failed for option:'') @ (ustr '' '') @ option),
       py_print (ustr ''\<newline>Before using this scaffold, please ensure that you have:''),
       py_print (ustr ''  1. Git & GitHub configured (SSH keys, per-account gitconfig, etc.)''),
       py_print (ustr ''  2. A default Python version set via pyenv.''),
       (if option = (ustr ''1'') then py_print (ustr ''  3. Poetry installed and on your PATH.'')
        else if option = (ustr ''2'') then py_print (ustr ''  3. pyenv-virtualenv installed and working.'')
        else io_return ()),
       py_print (ustr ''\<newline>You can use these guides and helper repositories:''),
       py_print (ustr ''- Git & GitHub configuration (scripts + guide):''),
       py_print (ustr ''  https://github.com/GitauHarrison/git_github_configurations''),
       py_print (ustr ''  https://github.com/GitauHarrison/notes_on_general_topics/blob/main/02_automate_git_and_github_setup.md''),
       py_print (ustr ''- Python version & pyenv / pyenv-virtualenv setup helper:''),
       py_print (ustr ''  https://github.com/GitauHarrison/install_new_python_version_in_your_os?tab=readme-ov-file#python-version--pyenv-virtualenv-setup-helper''),
       py_print (ustr ''- Manual guide for newer Python + virtualenv on macOS:''),
       py_print (ustr ''  https://github.com/GitauHarrison/notes_on_general_topics/blob/main/01_new_python_version_macOS_virtualenv.md''),
       py_print (ustr ''- Working with virtual environments in Flask:''),
       py_print (ustr ''  https://github.com/GitauHarrison/notes_on_general_topics/blob/main/03_working_with_virtual_envs_in_flask.md'')]\<close>

text \<open>
  \<open>ensure_prereqs\<close>: the three checks run first; \<open>ok\<close> starts true and is cleared with
  each line that reports a missing tool.
\<close>

definition ensure_prereqs :: "host \<Rightarrow> pystr \<Rightarrow> bool io" where
  "ensure_prereqs h option =
     (let has_pyenv = check_pyenv h;
          has_pyenv_venv = check_pyenv_virtualenv h;
          has_poetry = check_poetry h
      in io_bind
           (if \<not> has_pyenv
            then io_then (py_print (ustr ''- pyenv not found on PATH.'')) (io_return False)
            else io_return True)
        (\<lambda>ok. io_bind
           (if option = (ustr ''1'') then
              (if \<not> has_poetry
               then io_then (py_print (ustr ''- Poetry not found on PATH.'')) (io_return False)
               else io_return ok)
            else if option = (ustr ''2'') then
              (if \<not> has_pyenv_venv
               then io_then
                      (py_print (ustr ''- pyenv-virtualenv plugin does not appear to be installed.''))
                      (io_return False)
               else io_return ok)
            else io_return ok)
        (\<lambda>ok. io_then
           (if \<not> ok then show_prereq_instructions option
            else py_print (ustr ''Environment checks passed.''))
           (io_return ok))))"

section \<open>Prompts\<close>

text \<open>
  \<open>prompt_choice\<close> loops until a line, stripped, is one of the keys. Standard input is a
  finite script here, so the loop ends: with a key, or with the \<open>EOFError\<close> of \<open>input\<close>.
\<close>

definition choices_text :: "pystr \<Rightarrow> (pystr \<times> pystr) list \<Rightarrow> pystr" where
  "choices_text prompt choices =
     prompt @ [NL] @ concat (map (\<lambda>(key, label). concat [(ustr ''  ''), key, (ustr '') ''), label] @ [NL]) choices)"

function prompt_choice :: "pystr \<Rightarrow> (pystr \<times> pystr) list \<Rightarrow> pystr io" where
  "prompt_choice prompt choices w =
     (case py_input (ustr ''Enter choice: '') (emit (choices_text prompt choices) w) of
        (Inl e, w') \<Rightarrow> (Inl e, w')
      | (Inr line, w') \<Rightarrow>
          (let v = py_strip line
           in if v \<in> set (map fst choices) then (Inr v, w')
              else prompt_choice prompt choices
                     (emit ((ustr ''Invalid choice, please try again.\<newline>'') @ [NL]) w')))"
  by pat_completeness auto
termination
  by (relation "measure (\<lambda>(prompt, choices, w). length (stdin w))")
     (auto simp: py_input_def emit_def split: list.splits)

declare prompt_choice.simps [simp del]

definition prompt_with_default :: "pystr \<Rightarrow> pystr \<Rightarrow> pystr io" where
  "prompt_with_default prompt dflt =
     io_bind (py_input (concat [prompt, (ustr '' [''), dflt, (ustr '']: '')]))
       (\<lambda>line. let v = py_strip line in io_return (if v \<noteq> [] then v else dflt))"

section \<open>The project directory and its files\<close>

definition ensure_project_dir :: "host \<Rightarrow> pystr \<Rightarrow> path io" where
  "ensure_project_dir h project_name w =
     (let project_root = path_join (home h) project_name
      in if path_exists w project_root then
           io_bind (iterdir project_root)
             (\<lambda>entries.
                if entries \<noteq> [] then
                  io_then
                    (py_print (concat [(ustr ''\<newline>Directory ''), path_str project_root,
                                       (ustr '' already exists and is not empty.'')]))
                    (io_bind
                       (py_input (ustr ''Do you want to abort and choose a different project name? [Y/n]: ''))
                       (\<lambda>line. let answer = py_lower h (py_strip line)
                               in if answer \<in> set [(ustr ''''), (ustr ''y''), (ustr ''yes'')] then sys_exit 1
                                  else io_return project_root))
                else
                  io_then
                    (py_print ((ustr ''Using existing empty directory: '') @ path_str project_root))
                    (io_return project_root)) w
         else
           io_then (mkdir_parents project_root)
             (io_then (py_print ((ustr ''Created project directory: '') @ path_str project_root))
                (io_return project_root)) w)"

definition write_text :: "host \<Rightarrow> path \<Rightarrow> pystr \<Rightarrow> unit io" where
  "write_text h p content =
     io_seq
      [mkdir_parents (parent p),
       path_write_text h p (rstrip_nl content @ [NL]),
       io_bind (relative_to p (home h))
         (\<lambda>rel. py_print ((ustr ''  - Created '') @ rel_str rel))]"

section \<open>The templates\<close>

text \<open>
  Each template is the text its scaffold function passes to \<open>write_text\<close>, under the name
  of the local variable that holds it; \<open>flaskenv\<close>, \<open>dotenv\<close>, \<open>gitignore\<close> and
  \<open>gitattributes\<close> are the texts passed without a name. The f-strings take their
  parameters as arguments, and \<open>textwrap.dedent\<close> runs on the text after interpolation.
\<close>

definition flaskenv :: "pystr" where
  \<open>flaskenv =
     dedent (ustr (concat
      [''\<newline>'',
       ''            FLASK_APP=main.py\<newline>'',
       ''            FLASK_ENV=development\<newline>'',
       ''            FLASK_DEBUG=1\<newline>'',
       ''            '']))\<close>

definition dotenv :: "pystr" where
  \<open>dotenv =
     dedent (ustr (concat
      [''\<newline>'',
       ''            # Environment variables for your Flask app\<newline>'',
       ''            # Fill these in as needed. See comments in config.py for details.\<newline>'',
       ''\<newline>'',
       ''            SECRET_KEY=\<newline>'',
       ''            DATABASE_URL=\<newline>'',
       ''\<newline>'',
       ''            MAIL_SERVER=\<newline>'',
       ''            MAIL_PORT=\<newline>'',
       ''            MAIL_USE_TLS=\<newline>'',
       ''            MAIL_USERNAME=\<newline>'',
       ''            SENDGRID_API_KEY=\<newline>'',
       ''            MAIL_DEFAULT_SENDER=\<newline>'',
       ''            ADMINS=\<newline>'',
       ''            TECH_ADMIN=\<newline>'',
       ''\<newline>'',
       ''            LOG_TO_STDOUT=\<newline>'',
       ''            UPLOAD_FOLDER=\<newline>'',
       ''\<newline>'',
       ''            RECAPTCHA_PUBLIC_KEY=\<newline>'',
       ''            RECAPTCHA_PRIVATE_KEY=\<newline>'',
       ''            '']))\<close>

definition gitignore :: "pystr" where
  \<open>gitignore =
     dedent (ustr (concat
      [''\<newline>'',
       ''            __pycache__/\<newline>'',
       ''            *.py[cod]\<newline>'',
       ''            *.pyo\<newline>'',
       ''            *.pyd\<newline>'',
       ''            .Python\<newline>'',
       ''            env/\<newline>'',
       ''            venv/\<newline>'',
       ''            .venv/\<newline>'',
       ''            .mypy_cache/\<newline>'',
       ''            .pytest_cache/\<newline>'',
       ''            .DS_Store\<newline>'',
       ''            .env\<newline>'',
       ''            instance/\<newline>'',
       ''            *.sqlite3\<newline>'',
       ''            *.db\<newline>'',
       ''            .idea/\<newline>'',
       ''            .vscode/\<newline>'',
       ''            '']))\<close>

definition gitattributes :: "pystr" where
  \<open>gitattributes =
     dedent (ustr (concat
      [''\<newline>'',
       ''            * text=auto\<newline>'',
       ''            *.py diff=python\<newline>'',
       ''            '']))\<close>

definition license_text :: "pystr \<Rightarrow> pystr" where
  \<open>license_text author =
     dedent (concat
      [ustr ''\<newline>'',
       ustr ''        MIT License\<newline>'',
       ustr ''\<newline>'',
       ustr ''        Copyright (c) '', author, ustr ''\<newline>'',
       ustr ''\<newline>'',
       ustr ''        Permission is hereby granted, free of charge, to any person obtaining a copy\<newline>'',
       ustr ''        of this software and associated documentation files (the "Software"), to deal\<newline>'',
       ustr ''        in the Software without restriction, including without limitation the rights\<newline>'',
       ustr ''        to use, copy, modify, merge, publish, distribute, sublicense, and/or sell\<newline>'',
       ustr ''        copies of the Software, and to permit persons to whom the Software is\<newline>'',
       ustr ''        furnished to do so, subject to the following conditions:\<newline>'',
       ustr ''\<newline>'',
       ustr ''        The above copyright notice and this permission notice shall be included in all\<newline>'',
       ustr ''        copies or substantial portions of the Software.\<newline>'',
       ustr ''\<newline>'',
       ustr ''        THE SOFTWARE IS PROVIDED "AS IS", WITHOUT WARRANTY OF ANY KIND, EXPRESS OR\<newline>'',
       ustr ''        IMPLIED, INCLUDING BUT NOT LIMITED TO THE WARRANTIES OF MERCHANTABILITY,\<newline>'',
       ustr ''        FITNESS FOR A PARTICULAR PURPOSE AND NONINFRINGEMENT. IN NO EVENT SHALL THE\<newline>'',
       ustr ''        AUTHORS OR COPYRIGHT HOLDERS BE LIABLE FOR ANY CLAIM, DAMAGES OR OTHER\<newline>'',
       ustr ''        LIABILITY, WHETHER IN AN ACTION OF CONTRACT, TORT OR OTHERWISE, ARISING FROM,\<newline>'',
       ustr ''        OUT OF OR IN CONNECTION WITH THE SOFTWARE OR THE USE OR OTHER DEALINGS IN THE\<newline>'',
       ustr ''        SOFTWARE.\<newline>'',
       ustr ''        ''])\<close>

definition readme :: "pystr \<Rightarrow> pystr \<Rightarrow> pystr" where
  \<open>readme project_name description =
     dedent (concat
      [ustr ''\<newline>'',
       ustr ''        # '', project_name, ustr ''\<newline>'',
       ustr ''\<newline>'',
       ustr ''        '', description, ustr ''\<newline>'',
       ustr ''\<newline>'',
       ustr ''        This repository contains a Flask web application with a blueprint-based\<newline>'',
       ustr ''        structure (`main`, `auth`, `admin`, `errors`). It is intended as a\<newline>'',
       ustr ''        practical starting point for real projects: you can run it immediately,\<newline>'',
       ustr ''        then modify or replace any part of it to suit your needs.\<newline>'',
       ustr ''\<newline>'',
       ustr ''        ## What you get\<newline>'',
       ustr ''\<newline>'',
       ustr ''        Note: This starter uses Flask blueprints, which are a slightly more\<newline>'',
       ustr ''        advanced concept in Flask. If you are new to blueprints, you may want\<newline>'',
       ustr ''        to skim the official Flask documentation on them alongside this\<newline>'',
       ustr ''        scaffold.\<newline>'',
       ustr ''\<newline>'',
       ustr ''        - A Flask application structured with blueprints (`main`, `auth`, `admin`, and `errors`).\<newline>'',
       ustr ''        - A `User` model and basic authentication-related forms and templates.\<newline>'',
       ustr ''        - Anonymous pages (e.g. home page) and authenticated pages (e.g. dashboard) with\<newline>'',
       ustr ''          different layouts using Bootstrap.\<newline>'',
       ustr ''        - A ready-to-extend structure for templates, static assets, utilities, and email\<newline>'',
       ustr ''          handling.\<newline>'',
       ustr ''\<newline>'',
       ustr ''        ## Learning resources (strongly recommended)\<newline>'',
       ustr ''\<newline>'',
       ustr ''        If you want a deeper understanding of the tools this scaffold assumes,\<newline>'',
       ustr ''        walk through these guides first:\<newline>'',
       ustr ''\<newline>'',
       ustr ''        - Git & GitHub configuration (scripts + guide):\<newline>'',
       ustr ''          - https://github.com/GitauHarrison/git_github_configurations\<newline>'',
       ustr ''          - https://github.com/GitauHarrison/notes_on_general_topics/blob/main/02_automate_git_and_github_setup.md\<newline>'',
       ustr ''        - Python version & pyenv / pyenv-virtualenv setup helper:\<newline>'',
       ustr ''          - https://github.com/GitauHarrison/install_new_python_version_in_your_os?tab=readme-ov-file#python-version--pyenv-virtualenv-setup-helper\<newline>'',
       ustr ''        - Manual guide for newer Python + virtualenv on macOS:\<newline>'',
       ustr ''          - https://github.com/GitauHarrison/notes_on_general_topics/blob/main/01_new_python_version_macOS_virtualenv.md\<newline>'',
       ustr ''        - Working with virtual environments in Flask:\<newline>'',
       ustr ''          - https://github.com/GitauHarrison/notes_on_general_topics/blob/main/03_working_with_virtual_envs_in_flask.md\<newline>'',
       ustr ''\<newline>'',
       ustr ''        After you are comfortable with these topics, this scaffold should feel\<newline>'',
       ustr ''        much more intuitive.\<newline>'',
       ustr ''\<newline>'',
       ustr ''        ## Blueprint structure overview\<newline>'',
       ustr ''\<newline>'',
       ustr ''        This starter organizes your application into several blueprints:\<newline>'',
       ustr ''\<newline>'',
       ustr ''        - `main`: public-facing pages (home, contact) and the authenticated\<newline>'',
       ustr ''          dashboard.\<newline>'',
       ustr ''        - `auth`: authentication-related routes (login, register, logout) and\<newline>'',
       ustr ''          forms.\<newline>'',
       ustr ''        - `admin`: a placeholder for admin-only routes and views.\<newline>'',
       ustr ''        - `errors`: central error handlers that render different templates for\<newline>'',
       ustr ''          anonymous vs authenticated users.\<newline>'',
       ustr ''\<newline>'',
       ustr ''        Understanding how blueprints work will make it easier to extend this\<newline>'',
       ustr ''        structure as your application grows.\<newline>'',
       ustr ''\<newline>'',
       ustr ''        ## How to work with this repo\<newline>'',
       ustr ''\<newline>'',
       ustr ''        ### What the script did\<newline>'',
       ustr ''\<newline>'',
       ustr ''        When you ran `create_flask_project.py`, it:\<newline>'',
       ustr ''\<newline>'',
       ustr ''        - Created this project folder in your home directory.\<newline>'',
       ustr ''        - Generated the Flask application package (`app/`), configuration,\<newline>'',
       ustr ''          templates, static assets, and supporting files (README, LICENSE,\<newline>'',
       ustr ''          CONTRIBUTING, CODE_OF_CONDUCT, etc.).\<newline>'',
       ustr ''        - Optionally created a `pyproject.toml` (if you chose Poetry) or a\<newline>'',
       ustr ''          `requirements.txt` (if you chose the pyenv-virtualenv workflow).\<newline>'',
       ustr ''        - If you selected Poetry, it may have added a convenience alias\<newline>'',
       ustr ''          `pf=\'poetry run flask\'` to your shell startup file (`~/.zshrc` or\<newline>'',
       ustr ''          `~/.bashrc`). You are free to remove or change this alias.\<newline>'',
       ustr ''\<newline>'',
       ustr ''        The script does *not* modify any other global configuration. All other\<newline>'',
       ustr ''        files it creates live inside this project directory.\<newline>'',
       ustr ''\<newline>'',
       ustr ''        ### Day-to-day usage\<newline>'',
       ustr ''\<newline>'',
       ustr ''        1. Create or activate a virtual environment using your preferred workflow\<newline>'',
       ustr ''           (pyenv + pyenv-virtualenv or pyenv + Poetry).\<newline>'',
       ustr ''        2. If you chose **Poetry**, from the project root, add the core dependencies\<newline>'',
       ustr ''           in one go:\<newline>'',
       ustr ''\<newline>'',
       ustr ''           `poetry add flask flask-sqlalchemy flask-migrate flask-login flask-wtf flask-mail flask-moment python-dotenv email-validator pyjwt`\<newline>'',
       ustr ''\<newline>'',
       ustr ''           This will update `pyproject.toml` and let Poetry generate a valid\<newline>'',
       ustr ''           `poetry.lock` the first time you run `poetry add` or `poetry lock`.\<newline>'',
       ustr ''           The scaffold intentionally does not create a placeholder lock file to\<newline>'',
       ustr ''           avoid the "lock file does not have a metadata entry" error that\<newline>'',
       ustr ''           occurs if `poetry.lock` is not generated by Poetry itself.\<newline>'',
       ustr ''\<newline>'',
       ustr ''           If you manually edit `pyproject.toml` later, run `poetry lock` to\<newline>'',
       ustr ''           regenerate `poetry.lock` so it stays in sync.\<newline>'',
       ustr ''\<newline>'',
       ustr ''        3. If you chose **requirements.txt**, create a virtualenv and run:\<newline>'',
       ustr ''\<newline>'',
       ustr ''           `pip install -r requirements.txt`\<newline>'',
       ustr ''\<newline>'',
       ustr ''           Whenever you install or upgrade packages in that virtualenv, update\<newline>'',
       ustr ''           `requirements.txt` with `pip3 freeze > requirements.txt`.\<newline>'',
       ustr ''\<newline>'',
       ustr ''        4. Set your environment variables in `.env` and `.flaskenv` as needed.\<newline>'',
       ustr ''        5. Run the app in development mode and start building features.\<newline>'',
       ustr ''\<newline>'',
       ustr ''        ### After the first run: what to do next\<newline>'',
       ustr ''\<newline>'',
       ustr ''        - Review the generated files and delete or rename anything you do not\<newline>'',
       ustr ''          need. This scaffold is a starting point, not a constraint.\<newline>'',
       ustr ''        - Customize blueprints, templates, and configuration to match your\<newline>'',
       ustr ''          real application.\<newline>'',
       ustr ''        - Keep your dependency declarations (`pyproject.toml` or\<newline>'',
       ustr ''          `requirements.txt`) in sync with your virtual environment as you add\<newline>'',
       ustr ''          or remove packages.\<newline>'',
       ustr ''\<newline>'',
       ustr ''        ## Next steps (high level)\<newline>'',
       ustr ''\<newline>'',
       ustr ''        1. Create or activate a virtual environment using your preferred workflow\<newline>'',
       ustr ''           (pyenv + pyenv-virtualenv or pyenv + Poetry).\<newline>'',
       ustr ''        2. If you chose **Poetry**, from the project root, add the core dependencies\<newline>'',
       ustr ''           in one go:\<newline>'',
       ustr ''\<newline>'',
       ustr ''           `poetry add flask flask-sqlalchemy flask-migrate flask-login flask-wtf flask-mail flask-moment python-dotenv email-validator pyjwt`\<newline>'',
       ustr ''\<newline>'',
       ustr ''           This will update `pyproject.toml` and let Poetry generate a valid\<newline>'',
       ustr ''           `poetry.lock` the first time you run `poetry add` or `poetry lock`.\<newline>'',
       ustr ''           The scaffold intentionally does not create a placeholder lock file to\<newline>'',
       ustr ''           avoid the "lock file does not have a metadata entry" error that\<newline>'',
       ustr ''           occurs if `poetry.lock` is not generated by Poetry itself.\<newline>'',
       ustr ''\<newline>'',
       ustr ''           If you manually edit `pyproject.toml` later, run `poetry lock` to\<newline>'',
       ustr ''           regenerate `poetry.lock` so it stays in sync.\<newline>'',
       ustr ''\<newline>'',
       ustr ''        3. If you chose **requirements.txt**, create a virtualenv and run:\<newline>'',
       ustr ''\<newline>'',
       ustr ''           `pip install -r requirements.txt`\<newline>'',
       ustr ''\<newline>'',
       ustr ''           Whenever you install or upgrade packages in that virtualenv, update\<newline>'',
       ustr ''           `requirements.txt` with `pip3 freeze > requirements.txt`.\<newline>'',
       ustr ''\<newline>'',
       ustr ''        4. Set your environment variables in `.env` and `.flaskenv` as needed.\<newline>'',
       ustr ''        5. Run the app in development mode and start building features.\<newline>'',
       ustr ''        ''])\<close>

definition contributing :: "pystr" where
  \<open>contributing =
     dedent (ustr (concat
      [''\<newline>'',
       ''        # Contributing\<newline>'',
       ''\<newline>'',
       ''        Thank you for your interest in contributing!\<newline>'',
       ''\<newline>'',
       ''        This project aims to provide a clear, opinionated starting point for\<newline>'',
       ''        Flask applications. Contributions that improve clarity, robustness,\<newline>'',
       ''        documentation, or developer experience are welcome.\<newline>'',
       ''\<newline>'',
       ''        ## Ways to contribute\<newline>'',
       ''\<newline>'',
       ''        - Report bugs or confusing behavior by opening an issue.\<newline>'',
       ''        - Improve documentation, comments, and inline explanations.\<newline>'',
       ''        - Add small, focused features that align with the goal of being a\<newline>'',
       ''          teaching-friendly starter project.\<newline>'',
       ''        - Refine structure or configuration to follow best practices.\<newline>'',
       ''\<newline>'',
       ''        ## Contribution guidelines\<newline>'',
       ''\<newline>'',
       ''        1. **Discuss large changes first**\<newline>'',
       ''           - For significant features or refactors, open an issue to describe\<newline>'',
       ''             what you would like to change and why.\<newline>'',
       ''\<newline>'',
       ''        2. **Keep changes focused**\<newline>'',
       ''           - Prefer small, self-contained pull requests that are easy to review.\<newline>'',
       ''           - Avoid mixing unrelated changes (e.g. style fixes and new features)\<newline>'',
       ''             in the same PR.\<newline>'',
       ''\<newline>'',
       ''        3. **Code style and structure**\<newline>'',
       ''           - Follow the existing structure (blueprints, separation of concerns).\<newline>'',
       ''           - Use clear naming and add docstrings or comments where behavior\<newline>'',
       ''             might not be obvious to someone new to Flask.\<newline>'',
       ''\<newline>'',
       ''        4. **Testing and manual verification**\<newline>'',
       ''           - Where possible, add or update tests when you change behavior.\<newline>'',
       ''           - At minimum, run the development server and manually exercise the\<newline>'',
       ''             changed flows (e.g. login, registration, error pages) before\<newline>'',
       ''             submitting a PR.\<newline>'',
       ''\<newline>'',
       ''        5. **Commit messages and pull requests**\<newline>'',
       ''           - Use descriptive commit messages that explain *why* a change was\<newline>'',
       ''             made, not just *what* was changed.\<newline>'',
       ''           - In PR descriptions, include a short summary, any relevant issue\<newline>'',
       ''             links, and clear testing notes.\<newline>'',
       ''\<newline>'',
       ''        By following these guidelines, you help keep this scaffold approachable\<newline>'',
       ''        for people who are learning Flask and modern Python workflows.\<newline>'',
       ''        '']))\<close>

definition coc :: "pystr" where
  \<open>coc =
     dedent (ustr (concat
      [''\<newline>'',
       ''        # Code of Conduct\<newline>'',
       ''\<newline>'',
       ''        This project is dedicated to providing a welcoming and harassment-free\<newline>'',
       ''        experience for everyone, regardless of background or experience level.\<newline>'',
       ''\<newline>'',
       ''        We expect all contributors, maintainers, and users to:\<newline>'',
       ''\<newline>'',
       ''        - Be respectful and considerate in all interactions.\<newline>'',
       ''        - Assume good faith and seek to understand before reacting.\<newline>'',
       ''        - Provide constructive feedback and avoid personal attacks.\<newline>'',
       ''        - Use inclusive language and be mindful of different backgrounds and\<newline>'',
       ''          experience levels.\<newline>'',
       ''\<newline>'',
       ''        ## Unacceptable behavior\<newline>'',
       ''\<newline>'',
       ''        Examples of behavior that will not be tolerated include, but are not\<newline>'',
       ''        limited to:\<newline>'',
       ''\<newline>'',
       ''        - Harassment, discrimination, or derogatory comments.\<newline>'',
       ''        - Threats of violence or encouraging self-harm.\<newline>'',
       ''        - Public or private harassment, including repeated unwanted contact.\<newline>'',
       ''        - Publishing others\' private information (doxxing) without consent.\<newline>'',
       ''        - Any conduct that would be reasonably considered inappropriate in a\<newline>'',
       ''          professional setting.\<newline>'',
       ''\<newline>'',
       ''        ## Reporting concerns\<newline>'',
       ''\<newline>'',
       ''        If you experience or witness behavior that violates this Code of\<newline>'',
       ''        Conduct:\<newline>'',
       ''\<newline>'',
       ''        - Consider politely pointing out the issue, if you feel safe doing so.\<newline>'',
       ''        - Otherwise, or if the behavior continues, please contact the project\<newline>'',
       ''          maintainer privately using the contact information in the README or\<newline>'',
       ''          project metadata.\<newline>'',
       ''\<newline>'',
       ''        All reports will be reviewed in good faith. The maintainers will take\<newline>'',
       ''        appropriate action, which may include warnings, temporary restrictions,\<newline>'',
       ''        or removal from participation in the project.\<newline>'',
       ''\<newline>'',
       ''        By participating in this project, you agree to abide by this Code of\<newline>'',
       ''        Conduct and help foster a positive, supportive environment for\<newline>'',
       ''        everyone.\<newline>'',
       ''        '']))\<close>

definition config_py :: "pystr" where
  \<open>config_py =
     dedent (ustr (concat
      [''\<newline>'',
       ''        import os\<newline>'',
       ''\<newline>'',
       ''        basedir = os.path.abspath(os.path.dirname(__file__))\<newline>'',
       ''\<newline>'',
       ''\<newline>'',
       ''        class Config(object):\<newline>'',
       ''            '', [CHR 0x27, CHR 0x27, CHR 0x27], ''All application configurations.\<newline>'',
       ''\<newline>'',
       ''            Configure your environment variables in the .env file at the project root.\<newline>'',
       ''            If a value is missing there, sensible defaults are used for local\<newline>'',
       ''            development (for example, SQLite instead of Postgres).\<newline>'',
       ''            '', [CHR 0x27, CHR 0x27, CHR 0x27], ''\<newline>'',
       ''\<newline>'',
       ''            # Web form security\<newline>'',
       ''            SECRET_KEY = os.environ.get(\'SECRET_KEY\') or \'you-cannot-guess\'\<newline>'',
       ''\<newline>'',
       ''            # Database configurations\<newline>'',
       ''            # Prefer DATABASE_URL from the environment; fall back to a local SQLite file.\<newline>'',
       ''            SQLALCHEMY_DATABASE_URI = os.environ.get(\'DATABASE_URL\') or                 \'sqlite:///\' + os.path.join(basedir, \'app.db\')\<newline>'',
       ''            SQLALCHEMY_TRACK_MODIFICATIONS = False\<newline>'',
       ''\<newline>'',
       ''            # Email\<newline>'',
       ''            MAIL_SERVER = os.environ.get(\'MAIL_SERVER\')\<newline>'',
       ''            MAIL_PORT = int(os.environ.get(\'MAIL_PORT\') or 25)\<newline>'',
       ''            MAIL_USE_TLS = os.environ.get(\'MAIL_USE_TLS\') is not None\<newline>'',
       ''            MAIL_USERNAME = os.environ.get(\'MAIL_USERNAME\')\<newline>'',
       ''            MAIL_PASSWORD = os.environ.get(\'SENDGRID_API_KEY\')\<newline>'',
       ''            MAIL_DEFAULT_SENDER = os.environ.get(\'MAIL_DEFAULT_SENDER\')\<newline>'',
       ''            ADMINS = os.environ.get(\'ADMINS\', '', [CHR 0x27, CHR 0x27], '').split(\',\') if os.environ.get(\'ADMINS\') else []\<newline>'',
       ''            TECH_ADMIN = os.environ.get(\'TECH_ADMIN\')\<newline>'',
       ''\<newline>'',
       ''            # Deployment / logging\<newline>'',
       ''            LOG_TO_STDOUT = os.environ.get(\'LOG_TO_STDOUT\')\<newline>'',
       ''            UPLOAD_FOLDER = os.environ.get(\'UPLOAD_FOLDER\')\<newline>'',
       ''\<newline>'',
       ''            # reCAPTCHA configuration\<newline>'',
       ''            RECAPTCHA_PUBLIC_KEY = os.environ.get(\'RECAPTCHA_PUBLIC_KEY\')\<newline>'',
       ''            RECAPTCHA_PRIVATE_KEY = os.environ.get(\'RECAPTCHA_PRIVATE_KEY\')\<newline>'',
       ''        '']))\<close>

definition app_init :: "pystr" where
  \<open>app_init =
     dedent (ustr (concat
      [''\<newline>'',
       ''        from flask import Flask\<newline>'',
       ''        from flask_sqlalchemy import SQLAlchemy\<newline>'',
       ''        from flask_login import LoginManager\<newline>'',
       ''        from flask_migrate import Migrate\<newline>'',
       ''        from flask_mail import Mail\<newline>'',
       ''        from flask_moment import Moment\<newline>'',
       ''        from flask_wtf import CSRFProtect\<newline>'',
       ''        from config import Config\<newline>'',
       ''        import logging\<newline>'',
       ''        from logging.handlers import SMTPHandler, RotatingFileHandler\<newline>'',
       ''        import os\<newline>'',
       ''        from sqlalchemy import MetaData\<newline>'',
       ''\<newline>'',
       ''\<newline>'',
       ''        convention = {\<newline>'',
       ''            "ix": \'ix_%(column_0_label)s\',\<newline>'',
       ''            "uq": "uq_%(table_name)s_%(column_0_name)s",\<newline>'',
       ''            "ck": "ck_%(table_name)s_%(constraint_name)s",\<newline>'',
       ''            "fk": "fk_%(table_name)s_%(column_0_name)s_%(referred_table_name)s",\<newline>'',
       ''            "pk": "pk_%(table_name)s",\<newline>'',
       ''        }\<newline>'',
       ''\<newline>'',
       ''        metadata = MetaData(naming_convention=convention)\<newline>'',
       ''\<newline>'',
       ''        db = SQLAlchemy(metadata=metadata)\<newline>'',
       ''        migrate = Migrate()\<newline>'',
       ''        login_manager = LoginManager()\<newline>'',
       ''        moment = Moment()\<newline>'',
       ''        mail = Mail()\<newline>'',
       ''        csrf = CSRFProtect()\<newline>'',
       ''\<newline>'',
       ''\<newline>'',
       ''        def create_app(config_class: type[Config] = Config) -> Flask:\<newline>'',
       ''            '', [CHR 0x27, CHR 0x27, CHR 0x27], ''Application factory.\<newline>'',
       ''\<newline>'',
       ''            This factory wires extensions, logging and routes together.\<newline>'',
       ''            The application is structured using blueprints (main, auth, admin,\<newline>'',
       ''            errors) to keep concerns separated.\<newline>'',
       ''            '', [CHR 0x27, CHR 0x27, CHR 0x27], ''\<newline>'',
       ''            app = Flask(__name__)\<newline>'',
       ''            app.config.from_object(config_class)\<newline>'',
       ''\<newline>'',
       ''            db.init_app(app)\<newline>'',
       ''            migrate.init_app(app, db, render_as_batch=True)\<newline>'',
       ''            login_manager.init_app(app)\<newline>'',
       ''            login_manager.login_view = \'auth.login\'\<newline>'',
       ''            login_manager.login_message = app.config.get(\'LOGIN_MESSAGE\', \'Please sign in to access this page.\')\<newline>'',
       ''            login_manager.login_message_category = app.config.get(\'LOGIN_MESSAGE_CATEGORY\', \'info\')\<newline>'',
       ''            mail.init_app(app)\<newline>'',
       ''            moment.init_app(app)\<newline>'',
       ''            csrf.init_app(app)\<newline>'',
       ''\<newline>'',
       ''            # Register blueprints\<newline>'',
       ''            from app.errors import bp as errors_bp\<newline>'',
       ''            app.register_blueprint(errors_bp)\<newline>'',
       ''\<newline>'',
       ''            from app.auth import bp as auth_bp\<newline>'',
       ''            app.register_blueprint(auth_bp, url_prefix=\'/auth\')\<newline>'',
       ''\<newline>'',
       ''            from app.admin import bp as admin_bp\<newline>'',
       ''            app.register_blueprint(admin_bp, url_prefix=\'/admin\')\<newline>'',
       ''\<newline>'',
       ''            from app.main import bp as main_bp\<newline>'',
       ''            app.register_blueprint(main_bp)\<newline>'',
       ''\<newline>'',
       ''            # Import models so that tools like Flask-Migrate can discover them.\<newline>'',
       ''            from app import models  # noqa: F401\<newline>'',
       ''\<newline>'',
       ''            if not app.debug and not app.testing:\<newline>'',
       ''                if app.config[\'MAIL_SERVER\']:\<newline>'',
       ''                    auth = None\<newline>'',
       ''                    if app.config[\'MAIL_USERNAME\'] or app.config[\'MAIL_PASSWORD\']:\<newline>'',
       ''                        auth = (app.config[\'MAIL_USERNAME\'], app.config[\'MAIL_PASSWORD\'])\<newline>'',
       ''                    secure = None\<newline>'',
       ''                    if app.config[\'MAIL_USE_TLS\']:\<newline>'',
       ''                        secure = ()\<newline>'',
       ''                    mail_handler = SMTPHandler(\<newline>'',
       ''                        mailhost=(app.config[\'MAIL_SERVER\'], app.config[\'MAIL_PORT\']),\<newline>'',
       ''                        fromaddr=app.config[\'MAIL_DEFAULT_SENDER\'],\<newline>'',
       ''                        toaddrs=[app.config.get(\'TECH_ADMIN\')] if app.config.get(\'TECH_ADMIN\') else [],\<newline>'',
       ''                        subject=f"{app.name} failure",\<newline>'',
       ''                        credentials=auth,\<newline>'',
       ''                        secure=secure,\<newline>'',
       ''                    )\<newline>'',
       ''                    mail_handler.setLevel(logging.ERROR)\<newline>'',
       ''                    app.logger.addHandler(mail_handler)\<newline>'',
       ''\<newline>'',
       ''                if app.config.get(\'LOG_TO_STDOUT\'):\<newline>'',
       ''                    stream_handler = logging.StreamHandler()\<newline>'',
       ''                    stream_handler.setLevel(logging.INFO)\<newline>'',
       ''                    app.logger.addHandler(stream_handler)\<newline>'',
       ''                else:\<newline>'',
       ''                    if not os.path.exists(\'logs\'):\<newline>'',
       ''                        os.mkdir(\'logs\')\<newline>'',
       ''                    file_handler = RotatingFileHandler(\<newline>'',
       ''                        \'logs/app.log\', maxBytes=10240, backupCount=10,\<newline>'',
       ''                    )\<newline>'',
       ''                    file_handler.setFormatter(\<newline>'',
       ''                        logging.Formatter(\<newline>'',
       ''                            \'%(asctime)s %(levelname)s: %(message)s [in %(pathname)s:%(lineno)d]\',\<newline>'',
       ''                        )\<newline>'',
       ''                    )\<newline>'',
       ''                    file_handler.setLevel(logging.INFO)\<newline>'',
       ''                    app.logger.addHandler(file_handler)\<newline>'',
       ''\<newline>'',
       ''                app.logger.setLevel(logging.INFO)\<newline>'',
       ''                app.logger.info(\'%s startup\', app.name)\<newline>'',
       ''\<newline>'',
       ''            return app\<newline>'',
       ''        '']))\<close>

definition main_py :: "pystr" where
  \<open>main_py =
     dedent (ustr (concat
      [''\<newline>'',
       ''        '', [CHR 0x27, CHR 0x27, CHR 0x27], ''Entry point for running the Flask development server.'', [CHR 0x27, CHR 0x27, CHR 0x27], ''\<newline>'',
       ''\<newline>'',
       ''        from app import create_app, db\<newline>'',
       ''        from app.models import User\<newline>'',
       ''\<newline>'',
       ''        app = create_app()\<newline>'',
       ''\<newline>'',
       ''\<newline>'',
       ''        @app.shell_context_processor\<newline>'',
       ''        def make_shell_context() -> dict:\<newline>'',
       ''            return {"db": db, "User": User}\<newline>'',
       ''\<newline>'',
       ''\<newline>'',
       ''        if __name__ == "__main__":\<newline>'',
       ''            app.run()\<newline>'',
       ''        '']))\<close>

definition models_py :: "pystr" where
  \<open>models_py =
     dedent (ustr (concat
      [''\<newline>'',
       ''        from datetime import datetime\<newline>'',
       ''        from hashlib import md5\<newline>'',
       ''\<newline>'',
       ''        from flask_login import UserMixin\<newline>'',
       ''        from werkzeug.security import generate_password_hash, check_password_hash\<newline>'',
       ''\<newline>'',
       ''        from app import db, login_manager\<newline>'',
       ''\<newline>'',
       ''\<newline>'',
       ''        class User(UserMixin, db.Model):\<newline>'',
       ''            '', [CHR 0x27, CHR 0x27, CHR 0x27], ''User account model.\<newline>'',
       ''\<newline>'',
       ''            This example keeps the fields intentionally small, but includes helpers\<newline>'',
       ''            for password hashing and avatar URLs.\<newline>'',
       ''            '', [CHR 0x27, CHR 0x27, CHR 0x27], ''\<newline>'',
       ''\<newline>'',
       ''            id = db.Column(db.Integer, primary_key=True)\<newline>'',
       ''            username = db.Column(db.String(64), unique=True, index=True, nullable=False)\<newline>'',
       ''            email = db.Column(db.String(120), unique=True, index=True, nullable=False)\<newline>'',
       ''            password_hash = db.Column(db.String(256), nullable=False)\<newline>'',
       ''            created_at = db.Column(db.DateTime, default=datetime.utcnow)\<newline>'',
       ''\<newline>'',
       ''            def __repr__(self) -> str:  # pragma: no cover - debug helper\<newline>'',
       ''                return f"<User {self.username!r}>"\<newline>'',
       ''\<newline>'',
       ''            def set_password(self, password: str) -> None:\<newline>'',
       ''                '', [CHR 0x27, CHR 0x27, CHR 0x27], ''Hash and store the given plaintext password.'', [CHR 0x27, CHR 0x27, CHR 0x27], ''\<newline>'',
       ''                self.password_hash = generate_password_hash(password)\<newline>'',
       ''\<newline>'',
       ''            def check_password(self, password: str) -> bool:\<newline>'',
       ''                '', [CHR 0x27, CHR 0x27, CHR 0x27], ''Return True if the given password matches the stored hash.'', [CHR 0x27, CHR 0x27, CHR 0x27], ''\<newline>'',
       ''                return check_password_hash(self.password_hash, password)\<newline>'',
       ''\<newline>'',
       ''            def avatar(self, size: int = 128) -> str:\<newline>'',
       ''                # Return a gravatar URL based on the user\'s email address.\<newline>'',
       ''                digest = md5(self.email.lower().encode("utf-8")).hexdigest()\<newline>'',
       ''                return f"https://www.gravatar.com/avatar/{digest}?d=identicon&s={size}"\<newline>'',
       ''\<newline>'',
       ''\<newline>'',
       ''        @login_manager.user_loader\<newline>'',
       ''        def load_user(user_id: str) -> "User | None":  # pragma: no cover - thin wrapper\<newline>'',
       ''            return User.query.get(int(user_id))\<newline>'',
       ''        '']))\<close>

definition auth_forms_py :: "pystr" where
  \<open>auth_forms_py =
     dedent (ustr (concat
      [''\<newline>'',
       ''        from flask_wtf import FlaskForm\<newline>'',
       ''        from wtforms import StringField, PasswordField, SubmitField, BooleanField, TextAreaField\<newline>'',
       ''        from wtforms.validators import DataRequired, Email, EqualTo, Length\<newline>'',
       ''\<newline>'',
       ''\<newline>'',
       ''        class LoginForm(FlaskForm):\<newline>'',
       ''            email = StringField("Email", validators=[DataRequired(), Email()])\<newline>'',
       ''            password = PasswordField("Password", validators=[DataRequired()])\<newline>'',
       ''            remember_me = BooleanField("Remember me")\<newline>'',
       ''            submit = SubmitField("Sign in")\<newline>'',
       ''\<newline>'',
       ''\<newline>'',
       ''        class RegistrationForm(FlaskForm):\<newline>'',
       ''            username = StringField("Username", validators=[DataRequired(), Length(min=3, max=64)])\<newline>'',
       ''            email = StringField("Email", validators=[DataRequired(), Email()])\<newline>'',
       ''            password = PasswordField("Password", validators=[DataRequired(), Length(min=8)])\<newline>'',
       ''            password2 = PasswordField(\<newline>'',
       ''                "Repeat Password",\<newline>'',
       ''                validators=[DataRequired(), EqualTo("password", message="Passwords must match.")],\<newline>'',
       ''            )\<newline>'',
       ''            submit = SubmitField("Create account")\<newline>'',
       ''\<newline>'',
       ''\<newline>'',
       ''        class RequestResetPasswordForm(FlaskForm):\<newline>'',
       ''            email = StringField("Email", validators=[DataRequired(), Email()])\<newline>'',
       ''            submit = SubmitField("Send password reset link")\<newline>'',
       ''\<newline>'',
       ''\<newline>'',
       ''        class ResetPasswordForm(FlaskForm):\<newline>'',
       ''            password = PasswordField("New password", validators=[DataRequired(), Length(min=8)])\<newline>'',
       ''            password2 = PasswordField(\<newline>'',
       ''                "Repeat Password",\<newline>'',
       ''                validators=[DataRequired(), EqualTo("password", message="Passwords must match.")],\<newline>'',
       ''            )\<newline>'',
       ''            submit = SubmitField("Reset password")\<newline>'',
       ''\<newline>'',
       ''\<newline>'',
       ''        class ContactForm(FlaskForm):\<newline>'',
       ''            name = StringField("Name", validators=[DataRequired(), Length(min=2, max=64)])\<newline>'',
       ''            email = StringField("Email", validators=[DataRequired(), Email()])\<newline>'',
       ''            message = TextAreaField("Message", validators=[DataRequired(), Length(min=10, max=1000)])\<newline>'',
       ''            submit = SubmitField("Send message")\<newline>'',
       ''        '']))\<close>

definition main_forms_py :: "pystr" where
  \<open>main_forms_py =
     dedent (ustr (concat
      [''\<newline>'',
       ''        from flask_wtf import FlaskForm\<newline>'',
       ''        from wtforms import StringField, TextAreaField, SubmitField\<newline>'',
       ''        from wtforms.validators import DataRequired, Email, Length\<newline>'',
       ''\<newline>'',
       ''\<newline>'',
       ''        class ContactForm(FlaskForm):\<newline>'',
       ''            name = StringField("Name", validators=[DataRequired(), Length(min=2, max=64)])\<newline>'',
       ''            email = StringField("Email", validators=[DataRequired(), Email()])\<newline>'',
       ''            message = TextAreaField("Message", validators=[DataRequired(), Length(min=10, max=1000)])\<newline>'',
       ''            submit = SubmitField("Send message")\<newline>'',
       ''        '']))\<close>

definition email_py :: "pystr" where
  \<open>email_py =
     dedent (ustr (concat
      [''\<newline>'',
       ''        from threading import Thread\<newline>'',
       ''\<newline>'',
       ''        from flask import current_app\<newline>'',
       ''        from flask_mail import Message\<newline>'',
       ''\<newline>'',
       ''        from app import mail\<newline>'',
       ''\<newline>'',
       ''\<newline>'',
       ''        def send_async_email(app, msg):\<newline>'',
       ''            '', [CHR 0x27, CHR 0x27, CHR 0x27], ''Send email in a background thread.'', [CHR 0x27, CHR 0x27, CHR 0x27], ''\<newline>'',
       ''            with app.app_context():\<newline>'',
       ''                mail.send(msg)\<newline>'',
       ''\<newline>'',
       ''\<newline>'',
       ''        def send_email(subject, sender, recipients, text_body, html_body):\<newline>'',
       ''            '', [CHR 0x27, CHR 0x27, CHR 0x27], ''Send an email asynchronously using Flask-Mail and threading.'', [CHR 0x27, CHR 0x27, CHR 0x27], ''\<newline>'',
       ''            msg = Message(subject, sender=sender, recipients=recipients)\<newline>'',
       ''            msg.body = text_body\<newline>'',
       ''            msg.html = html_body\<newline>'',
       ''            Thread(\<newline>'',
       ''                target=send_async_email,\<newline>'',
       ''                args=(current_app._get_current_object(), msg),\<newline>'',
       ''            ).start()\<newline>'',
       ''        '']))\<close>

definition errors_init :: "pystr" where
  \<open>errors_init =
     dedent (ustr (concat
      [''\<newline>'',
       ''        from flask import Blueprint\<newline>'',
       ''\<newline>'',
       ''        bp = Blueprint(\'errors\', __name__)\<newline>'',
       ''\<newline>'',
       ''        from app.errors import handlers  # noqa: E402,F401\<newline>'',
       ''        '']))\<close>

definition errors_handlers :: "pystr" where
  \<open>errors_handlers =
     dedent (ustr (concat
      [''\<newline>'',
       ''        from flask import render_template\<newline>'',
       ''        from flask_login import current_user\<newline>'',
       ''\<newline>'',
       ''        from app import db\<newline>'',
       ''        from app.errors import bp\<newline>'',
       ''\<newline>'',
       ''\<newline>'',
       ''        @bp.app_errorhandler(404)\<newline>'',
       ''        def page_not_found(error):\<newline>'',
       ''            '', [CHR 0x27, CHR 0x27, CHR 0x27], ''Render different 404 pages depending on authentication status.'', [CHR 0x27, CHR 0x27, CHR 0x27], ''\<newline>'',
       ''            if current_user.is_authenticated:\<newline>'',
       ''                return (\<newline>'',
       ''                    render_template(\'errors/404_dashboard.html\', title=\'Page Not Found Error\'),\<newline>'',
       ''                    404,\<newline>'',
       ''                )\<newline>'',
       ''            return (\<newline>'',
       ''                render_template(\'errors/404_public.html\', title=\'Page Not Found Error\'),\<newline>'',
       ''                404,\<newline>'',
       ''            )\<newline>'',
       ''\<newline>'',
       ''\<newline>'',
       ''        @bp.app_errorhandler(500)\<newline>'',
       ''        def internal_server_error(error):\<newline>'',
       ''            '', [CHR 0x27, CHR 0x27, CHR 0x27], ''Render different 500 pages and roll back the session if needed.'', [CHR 0x27, CHR 0x27, CHR 0x27], ''\<newline>'',
       ''            db.session.rollback()\<newline>'',
       ''            if current_user.is_authenticated:\<newline>'',
       ''                return (\<newline>'',
       ''                    render_template(\'errors/500_dashboard.html\', title=\'Internal Server Error\'),\<newline>'',
       ''                    500,\<newline>'',
       ''                )\<newline>'',
       ''            return (\<newline>'',
       ''                render_template(\'errors/500_public.html\', title=\'Internal Server Error\'),\<newline>'',
       ''                500,\<newline>'',
       ''            )\<newline>'',
       ''        '']))\<close>

definition utils_init :: "pystr" where
  \<open>utils_init =
     []\<close>

definition decorators_py :: "pystr" where
  \<open>decorators_py =
     dedent (ustr (concat
      [''\<newline>'',
       ''        from functools import wraps\<newline>'',
       ''\<newline>'',
       ''        from flask import redirect, url_for, flash\<newline>'',
       ''        from flask_login import current_user\<newline>'',
       ''\<newline>'',
       ''\<newline>'',
       ''        def redirect_if_authenticated(view_func):\<newline>'',
       ''            '', [CHR 0x27, CHR 0x27, CHR 0x27], ''Redirect authenticated users away from auth-only pages (e.g. login/register).'', [CHR 0x27, CHR 0x27, CHR 0x27], ''\<newline>'',
       ''\<newline>'',
       ''            @wraps(view_func)\<newline>'',
       ''            def wrapper(*args, **kwargs):\<newline>'',
       ''                if current_user.is_authenticated:\<newline>'',
       ''                    flash("You are already signed in.", "info")\<newline>'',
       ''                    return redirect(url_for("dashboard"))\<newline>'',
       ''                return view_func(*args, **kwargs)\<newline>'',
       ''\<newline>'',
       ''            return wrapper\<newline>'',
       ''\<newline>'',
       ''\<newline>'',
       ''        def login_required_with_message(view_func):\<newline>'',
       ''            # Simple wrapper around Flask-Login\'s behavior to add a flash message.\<newline>'',
       ''\<newline>'',
       ''            @wraps(view_func)\<newline>'',
       ''            def wrapper(*args, **kwargs):\<newline>'',
       ''                if not current_user.is_authenticated:\<newline>'',
       ''                    flash("Please sign in to access this page.", "warning")\<newline>'',
       ''                    return redirect(url_for("login"))\<newline>'',
       ''                return view_func(*args, **kwargs)\<newline>'',
       ''\<newline>'',
       ''            return wrapper\<newline>'',
       ''        '']))\<close>

definition main_init :: "pystr" where
  \<open>main_init =
     dedent (ustr (concat
      [''\<newline>'',
       ''        from flask import Blueprint\<newline>'',
       ''\<newline>'',
       ''        bp = Blueprint(\'main\', __name__)\<newline>'',
       ''\<newline>'',
       ''        from app.main import routes  # noqa: E402,F401\<newline>'',
       ''        '']))\<close>

definition main_routes :: "pystr" where
  \<open>main_routes =
     dedent (ustr (concat
      [''\<newline>'',
       ''        from flask import render_template, redirect, url_for, flash\<newline>'',
       ''        from flask_login import login_required\<newline>'',
       ''\<newline>'',
       ''        from app.main import bp\<newline>'',
       ''        from app.main.forms import ContactForm\<newline>'',
       ''        from app.utils.decorators import redirect_if_authenticated, login_required_with_message\<newline>'',
       ''\<newline>'',
       ''\<newline>'',
       ''        @bp.route("/", methods=["GET", "POST"])\<newline>'',
       ''        @redirect_if_authenticated\<newline>'',
       ''        def index():\<newline>'',
       ''            form = ContactForm()\<newline>'',
       ''            if form.validate_on_submit():\<newline>'',
       ''                flash("Thank you for your message!", "success")\<newline>'',
       ''                return redirect(url_for("main.index"))\<newline>'',
       ''            return render_template("main/index.html", form=form)\<newline>'',
       ''\<newline>'',
       ''\<newline>'',
       ''        @bp.route("/contact", methods=["GET", "POST"])\<newline>'',
       ''        @redirect_if_authenticated\<newline>'',
       ''        def contact():\<newline>'',
       ''            form = ContactForm()\<newline>'',
       ''            if form.validate_on_submit():\<newline>'',
       ''                flash("Thank you for reaching out!", "success")\<newline>'',
       ''                return redirect(url_for("main.contact"))\<newline>'',
       ''            return render_template("main/contact.html", form=form)\<newline>'',
       ''\<newline>'',
       ''\<newline>'',
       ''        @bp.route("/dashboard")\<newline>'',
       ''        @login_required_with_message\<newline>'',
       ''        def dashboard():\<newline>'',
       ''            return render_template("dashboard/dashboard.html")\<newline>'',
       ''        '']))\<close>

definition auth_init :: "pystr" where
  \<open>auth_init =
     dedent (ustr (concat
      [''\<newline>'',
       ''        from flask import Blueprint\<newline>'',
       ''\<newline>'',
       ''        bp = Blueprint(\'auth\', __name__)\<newline>'',
       ''\<newline>'',
       ''        from app.auth import routes  # noqa: E402,F401\<newline>'',
       ''        '']))\<close>

definition auth_email_py :: "pystr" where
  \<open>auth_email_py =
     dedent (ustr (concat
      [''\<newline>'',
       ''        from flask import render_template, current_app\<newline>'',
       ''\<newline>'',
       ''        from app.auth import bp\<newline>'',
       ''        from app.email import send_email\<newline>'',
       ''\<newline>'',
       ''\<newline>'',
       ''        def send_password_reset_email(user):\<newline>'',
       ''            '', [CHR 0x27, CHR 0x27, CHR 0x27], ''Send a password reset email using the shared send_email helper.'', [CHR 0x27, CHR 0x27, CHR 0x27], ''\<newline>'',
       ''            token = user.get_reset_password_token()\<newline>'',
       ''            send_email(\<newline>'',
       ''                \'[Your Project] Reset Your Password\',\<newline>'',
       ''                sender=current_app.config[\'ADMINS\'][0] if current_app.config.get(\'ADMINS\') else None,\<newline>'',
       ''                recipients=[user.email],\<newline>'',
       ''                text_body=render_template(\'emails/reset_password.txt\', user=user, token=token),\<newline>'',
       ''                html_body=render_template(\'emails/reset_password.html\', user=user, token=token),\<newline>'',
       ''            )\<newline>'',
       ''        '']))\<close>

definition auth_routes :: "pystr" where
  \<open>auth_routes =
     dedent (ustr (concat
      [''\<newline>'',
       ''        from flask import render_template, redirect, url_for, flash\<newline>'',
       ''        from flask_login import login_user, logout_user, login_required\<newline>'',
       ''\<newline>'',
       ''        from app import db\<newline>'',
       ''        from app.auth import bp\<newline>'',
       ''        from app.auth.forms import LoginForm, RegistrationForm\<newline>'',
       ''        from app.models import User\<newline>'',
       ''        from app.utils.decorators import redirect_if_authenticated, login_required_with_message\<newline>'',
       ''\<newline>'',
       ''\<newline>'',
       ''        @bp.route("/login", methods=["GET", "POST"])\<newline>'',
       ''        @redirect_if_authenticated\<newline>'',
       ''        def login():\<newline>'',
       ''            form = LoginForm()\<newline>'',
       ''\<newline>'',
       ''            # Dummy user for demonstration purposes. In a real app, you would\<newline>'',
       ''            # look this information up from the database and verify the stored\<newline>'',
       ''            # password hash.\<newline>'',
       ''            dummy = User(\<newline>'',
       ''                username="test",\<newline>'',
       ''                email="test@email.com",\<newline>'',
       ''                password_hash="test12345",\<newline>'',
       ''            )\<newline>'',
       ''\<newline>'',
       ''            if form.validate_on_submit():\<newline>'',
       ''                if form.email.data == dummy.email and form.password.data == "test12345":\<newline>'',
       ''                    login_user(dummy, remember=form.remember_me.data)\<newline>'',
       ''                    flash("You are now logged in.", "success")\<newline>'',
       ''                    return redirect(url_for("main.dashboard"))\<newline>'',
       ''                flash("Invalid email or password.", "danger")\<newline>'',
       ''            return render_template("auth/login.html", form=form)\<newline>'',
       ''\<newline>'',
       ''\<newline>'',
       ''        @bp.route("/register", methods=["GET", "POST"])\<newline>'',
       ''        @redirect_if_authenticated\<newline>'',
       ''        def register():\<newline>'',
       ''            form = RegistrationForm()\<newline>'',
       ''            if form.validate_on_submit():\<newline>'',
       ''                flash("Registration is disabled in this starter project.", "info")\<newline>'',
       ''            return render_template("auth/register.html", form=form)\<newline>'',
       ''\<newline>'',
       ''\<newline>'',
       ''        @bp.route("/logout")\<newline>'',
       ''        @login_required_with_message\<newline>'',
       ''        def logout():\<newline>'',
       ''            logout_user()\<newline>'',
       ''            flash("You have been logged out.", "info")\<newline>'',
       ''            return redirect(url_for("main.index"))\<newline>'',
       ''        '']))\<close>

definition admin_init :: "pystr" where
  \<open>admin_init =
     dedent (ustr (concat
      [''\<newline>'',
       ''        from flask import Blueprint\<newline>'',
       ''\<newline>'',
       ''        bp = Blueprint(\'admin\', __name__)\<newline>'',
       ''\<newline>'',
       ''        from app.admin import routes  # noqa: E402,F401\<newline>'',
       ''        '']))\<close>

definition admin_routes :: "pystr" where
  \<open>admin_routes =
     dedent (ustr (concat
      [''\<newline>'',
       ''        from flask import render_template\<newline>'',
       ''        from flask_login import login_required\<newline>'',
       ''\<newline>'',
       ''        from app.admin import bp\<newline>'',
       ''        from app.utils.decorators import login_required_with_message\<newline>'',
       ''\<newline>'',
       ''\<newline>'',
       ''        @bp.route("/")\<newline>'',
       ''        @login_required_with_message\<newline>'',
       ''        def index():\<newline>'',
       ''            '', [CHR 0x27, CHR 0x27, CHR 0x27], ''Simple admin landing page placeholder.'', [CHR 0x27, CHR 0x27, CHR 0x27], ''\<newline>'',
       ''            return render_template("admin/index.html")\<newline>'',
       ''        '']))\<close>

definition base_html :: "pystr" where
  \<open>base_html =
     dedent (ustr (concat
      [''<!doctype html>\<newline>'',
       ''        <html lang="en">\<newline>'',
       ''          <head>\<newline>'',
       ''            <meta charset="utf-8">\<newline>'',
       ''            <meta name="viewport" content="width=device-width, initial-scale=1">\<newline>'',
       ''            <title>{% block title %}Flask Starter{% endblock %}</title>\<newline>'',
       ''            <link\<newline>'',
       ''              href="https://cdn.jsdelivr.net/npm/bootstrap@5.3.3/dist/css/bootstrap.min.css"\<newline>'',
       ''              rel="stylesheet"\<newline>'',
       ''              integrity="sha384-QWTKZyjpPEjISv5WaRU9OFeRpok6YctnYmDr5pNlyT2bRjXh0JMhjY6hW+ALEwIH"\<newline>'',
       ''              crossorigin="anonymous"\<newline>'',
       ''            >\<newline>'',
       ''            <link rel="stylesheet" href="{{ url_for(\'static\', filename=\'css/main.css\') }}">\<newline>'',
       ''            {% block extra_css %}{% endblock %}\<newline>'',
       ''          </head>\<newline>'',
       ''          <body>\<newline>'',
       ''            {% include \'partials/_flash_messages.html\' %}\<newline>'',
       ''            {% block navbar %}{% endblock %}\<newline>'',
       ''\<newline>'',
       ''            <main class="container py-4">\<newline>'',
       ''              {% block content %}{% endblock %}\<newline>'',
       ''            </main>\<newline>'',
       ''\<newline>'',
       ''            {% include \'partials/_footer.html\' %}\<newline>'',
       ''\<newline>'',
       ''            <script src="https://cdn.jsdelivr.net/npm/bootstrap@5.3.3/dist/js/bootstrap.bundle.min.js"\<newline>'',
       ''                    integrity="sha384-YvpcrYf0tY3lHB60NNkmXc5s9fDVZLESaAA55NDzOxhy9GkcIdslK1eN7N6jIeHz"\<newline>'',
       ''                    crossorigin="anonymous"></script>\<newline>'',
       ''            <script src="{{ url_for(\'static\', filename=\'js/main.js\') }}"></script>\<newline>'',
       ''            {% block extra_js %}{% endblock %}\<newline>'',
       ''          </body>\<newline>'',
       ''        </html>\<newline>'',
       ''        '']))\<close>

definition flash_messages :: "pystr" where
  \<open>flash_messages =
     dedent (ustr (concat
      [''{% with messages = get_flashed_messages(with_categories=true) %}\<newline>'',
       ''        {% if messages %}\<newline>'',
       ''          <div class="container mt-3">\<newline>'',
       ''            {% for category, message in messages %}\<newline>'',
       ''              <div class="alert alert-{{ category }} alert-dismissible fade show" role="alert">\<newline>'',
       ''                {{ message }}\<newline>'',
       ''                <button type="button" class="btn-close" data-bs-dismiss="alert" aria-label="Close"></button>\<newline>'',
       ''              </div>\<newline>'',
       ''            {% endfor %}\<newline>'',
       ''          </div>\<newline>'',
       ''        {% endif %}\<newline>'',
       ''        {% endwith %}\<newline>'',
       ''        '']))\<close>

definition footer :: "pystr" where
  \<open>footer =
     dedent (ustr (concat
      [''<footer class="border-top py-3 mt-5 text-center text-muted">\<newline>'',
       ''          <small>&copy; {{ config.SITE_NAME if config and config.SITE_NAME else \'Flask Starter\' }}</small>\<newline>'',
       ''        </footer>\<newline>'',
       ''        '']))\<close>

definition public_navbar :: "pystr" where
  \<open>public_navbar =
     dedent (ustr (concat
      [''<nav class="navbar navbar-expand-lg navbar-light bg-light border-bottom mb-4">\<newline>'',
       ''          <div class="container-fluid">\<newline>'',
       ''            <a class="navbar-brand" href="{{ url_for(\'main.index\') }}">Flask Starter</a>\<newline>'',
       ''            <button class="navbar-toggler" type="button" data-bs-toggle="collapse" data-bs-target="#navbarPublic"\<newline>'',
       ''                    aria-controls="navbarPublic" aria-expanded="false" aria-label="Toggle navigation">\<newline>'',
       ''              <span class="navbar-toggler-icon"></span>\<newline>'',
       ''            </button>\<newline>'',
       ''            <div class="collapse navbar-collapse" id="navbarPublic">\<newline>'',
       ''              <ul class="navbar-nav ms-auto mb-2 mb-lg-0">\<newline>'',
       ''                <li class="nav-item">\<newline>'',
       ''                  <a class="nav-link" href="{{ url_for(\'main.index\') }}">Home</a>\<newline>'',
       ''                </li>\<newline>'',
       ''                <li class="nav-item">\<newline>'',
       ''                  <a class="nav-link" href="{{ url_for(\'main.contact\') }}">Contact</a>\<newline>'',
       ''                </li>\<newline>'',
       ''                <li class="nav-item">\<newline>'',
       ''                  <a class="nav-link" href="{{ url_for(\'auth.login\') }}">Sign in</a>\<newline>'',
       ''                </li>\<newline>'',
       ''                <li class="nav-item">\<newline>'',
       ''                  <a class="nav-link" href="{{ url_for(\'auth.register\') }}">Register</a>\<newline>'',
       ''                </li>\<newline>'',
       ''              </ul>\<newline>'',
       ''            </div>\<newline>'',
       ''          </div>\<newline>'',
       ''        </nav>\<newline>'',
       ''        '']))\<close>

definition dashboard_navbar :: "pystr" where
  \<open>dashboard_navbar =
     dedent (ustr (concat
      [''<nav class="navbar navbar-expand-lg navbar-dark bg-dark border-bottom mb-4">\<newline>'',
       ''          <div class="container-fluid">\<newline>'',
       ''            <a class="navbar-brand" href="{{ url_for(\'main.dashboard\') }}">Dashboard</a>\<newline>'',
       ''            <button class="navbar-toggler" type="button" data-bs-toggle="collapse" data-bs-target="#navbarDashboard"\<newline>'',
       ''                    aria-controls="navbarDashboard" aria-expanded="false" aria-label="Toggle navigation">\<newline>'',
       ''              <span class="navbar-toggler-icon"></span>\<newline>'',
       ''            </button>\<newline>'',
       ''            <div class="collapse navbar-collapse" id="navbarDashboard">\<newline>'',
       ''              <ul class="navbar-nav ms-auto mb-2 mb-lg-0">\<newline>'',
       ''                <li class="nav-item">\<newline>'',
       ''                  <a class="nav-link" href="{{ url_for(\'main.index\') }}">Public site</a>\<newline>'',
       ''                </li>\<newline>'',
       ''                <li class="nav-item">\<newline>'',
       ''                  <a class="nav-link" href="{{ url_for(\'auth.logout\') }}">Log out</a>\<newline>'',
       ''                </li>\<newline>'',
       ''              </ul>\<newline>'',
       ''            </div>\<newline>'',
       ''          </div>\<newline>'',
       ''        </nav>\<newline>'',
       ''        '']))\<close>

definition index_html :: "pystr" where
  \<open>index_html =
     dedent (ustr (concat
      [''{% extends \'base.html\' %}\<newline>'',
       ''        {% block title %}Home - Flask Starter{% endblock %}\<newline>'',
       ''        {% block navbar %}{% include \'partials/_public_navbar.html\' %}{% endblock %}\<newline>'',
       ''        {% block content %}\<newline>'',
       ''        <div class="row justify-content-center">\<newline>'',
       ''          <div class="col-md-8">\<newline>'',
       ''            <h1 class="mb-3">Welcome</h1>\<newline>'',
       ''            <p class="lead">This is your anonymous landing page.</p>\<newline>'',
       ''            <p class="mb-4">Use this page for marketing copy, feature highlights, or a public\<newline>'',
       ''              view of your product.</p>\<newline>'',
       ''\<newline>'',
       ''            <hr>\<newline>'',
       ''\<newline>'',
       ''            <h2>Contact us</h2>\<newline>'',
       ''            <form method="post" novalidate>\<newline>'',
       ''              {{ form.hidden_tag() }}\<newline>'',
       ''              <div class="mb-3">\<newline>'',
       ''                {{ form.name.label(class_=\'form-label\') }}\<newline>'',
       ''                {{ form.name(class_=\'form-control\') }}\<newline>'',
       ''                {% for error in form.name.errors %}\<newline>'',
       ''                  <div class="text-danger small">{{ error }}</div>\<newline>'',
       ''                {% endfor %}\<newline>'',
       ''              </div>\<newline>'',
       ''              <div class="mb-3">\<newline>'',
       ''                {{ form.email.label(class_=\'form-label\') }}\<newline>'',
       ''                {{ form.email(class_=\'form-control\') }}\<newline>'',
       ''                {% for error in form.email.errors %}\<newline>'',
       ''                  <div class="text-danger small">{{ error }}</div>\<newline>'',
       ''                {% endfor %}\<newline>'',
       ''              </div>\<newline>'',
       ''              <div class="mb-3">\<newline>'',
       ''                {{ form.message.label(class_=\'form-label\') }}\<newline>'',
       ''                {{ form.message(class_=\'form-control\', rows=4) }}\<newline>'',
       ''                {% for error in form.message.errors %}\<newline>'',
       ''                  <div class="text-danger small">{{ error }}</div>\<newline>'',
       ''                {% endfor %}\<newline>'',
       ''              </div>\<newline>'',
       ''              {{ form.submit(class_=\'btn btn-primary\') }}\<newline>'',
       ''            </form>\<newline>'',
       ''          </div>\<newline>'',
       ''        </div>\<newline>'',
       ''        {% endblock %}\<newline>'',
       ''        '']))\<close>

definition contact_html :: "pystr" where
  \<open>contact_html =
     dedent (ustr (concat
      [''{% extends \'base.html\' %}\<newline>'',
       ''        {% block title %}Contact - Flask Starter{% endblock %}\<newline>'',
       ''        {% block navbar %}{% include \'partials/_public_navbar.html\' %}{% endblock %}\<newline>'',
       ''        {% block content %}\<newline>'',
       ''        <div class="row justify-content-center">\<newline>'',
       ''          <div class="col-md-8">\<newline>'',
       ''            <h1 class="mb-3">Contact</h1>\<newline>'',
       ''            <p>Use this page for a dedicated contact form or additional information.</p>\<newline>'',
       ''          </div>\<newline>'',
       ''        </div>\<newline>'',
       ''        {% endblock %}\<newline>'',
       ''        '']))\<close>

definition login_html :: "pystr" where
  \<open>login_html =
     dedent (ustr (concat
      [''{% extends \'base.html\' %}\<newline>'',
       ''        {% block title %}Sign in{% endblock %}\<newline>'',
       ''        {% block navbar %}{% include \'partials/_public_navbar.html\' %}{% endblock %}\<newline>'',
       ''        {% block content %}\<newline>'',
       ''        <div class="row justify-content-center">\<newline>'',
       ''          <div class="col-md-6 col-lg-4">\<newline>'',
       ''            <h1 class="mb-3">Sign in</h1>\<newline>'',
       ''            <form method="post" novalidate>\<newline>'',
       ''              {{ form.hidden_tag() }}\<newline>'',
       ''              <div class="mb-3">\<newline>'',
       ''                {{ form.email.label(class_=\'form-label\') }}\<newline>'',
       ''                {{ form.email(class_=\'form-control\') }}\<newline>'',
       ''                {% for error in form.email.errors %}\<newline>'',
       ''                  <div class="text-danger small">{{ error }}</div>\<newline>'',
       ''                {% endfor %}\<newline>'',
       ''              </div>\<newline>'',
       ''              <div class="mb-3">\<newline>'',
       ''                {{ form.password.label(class_=\'form-label\') }}\<newline>'',
       ''                {{ form.password(class_=\'form-control\') }}\<newline>'',
       ''                {% for error in form.password.errors %}\<newline>'',
       ''                  <div class="text-danger small">{{ error }}</div>\<newline>'',
       ''                {% endfor %}\<newline>'',
       ''              </div>\<newline>'',
       ''              <div class="form-check mb-3">\<newline>'',
       ''                {{ form.remember_me(class_=\'form-check-input\') }}\<newline>'',
       ''                {{ form.remember_me.label(class_=\'form-check-label\') }}\<newline>'',
       ''              </div>\<newline>'',
       ''              {{ form.submit(class_=\'btn btn-primary w-100\') }}\<newline>'',
       ''            </form>\<newline>'',
       ''          </div>\<newline>'',
       ''        </div>\<newline>'',
       ''        {% endblock %}\<newline>'',
       ''        '']))\<close>

definition register_html :: "pystr" where
  \<open>register_html =
     dedent (ustr (concat
      [''{% extends \'base.html\' %}\<newline>'',
       ''        {% block title %}Register{% endblock %}\<newline>'',
       ''        {% block navbar %}{% include \'partials/_public_navbar.html\' %}{% endblock %}\<newline>'',
       ''        {% block content %}\<newline>'',
       ''        <div class="row justify-content-center">\<newline>'',
       ''          <div class="col-md-6 col-lg-4">\<newline>'',
       ''            <h1 class="mb-3">Register</h1>\<newline>'',
       ''            <p class="text-muted">Registration is disabled in this starter project. Adapt this\<newline>'',
       ''              template when you wire up real user creation.</p>\<newline>'',
       ''          </div>\<newline>'',
       ''        </div>\<newline>'',
       ''        {% endblock %}\<newline>'',
       ''        '']))\<close>

definition request_reset_html :: "pystr" where
  \<open>request_reset_html =
     dedent (ustr (concat
      [''{% extends \'base.html\' %}\<newline>'',
       ''        {% block title %}Request password reset{% endblock %}\<newline>'',
       ''        {% block navbar %}{% include \'partials/_public_navbar.html\' %}{% endblock %}\<newline>'',
       ''        {% block content %}\<newline>'',
       ''        <div class="row justify-content-center">\<newline>'',
       ''          <div class="col-md-6 col-lg-4">\<newline>'',
       ''            <h1 class="mb-3">Reset password</h1>\<newline>'',
       ''            <p>Enter the email address associated with your account.</p>\<newline>'',
       ''          </div>\<newline>'',
       ''        </div>\<newline>'',
       ''        {% endblock %}\<newline>'',
       ''        '']))\<close>

definition reset_password_html :: "pystr" where
  \<open>reset_password_html =
     dedent (ustr (concat
      [''{% extends \'base.html\' %}\<newline>'',
       ''        {% block title %}Choose a new password{% endblock %}\<newline>'',
       ''        {% block navbar %}{% include \'partials/_public_navbar.html\' %}{% endblock %}\<newline>'',
       ''        {% block content %}\<newline>'',
       ''        <div class="row justify-content-center">\<newline>'',
       ''          <div class="col-md-6 col-lg-4">\<newline>'',
       ''            <h1 class="mb-3">Choose a new password</h1>\<newline>'',
       ''          </div>\<newline>'',
       ''        </div>\<newline>'',
       ''        {% endblock %}\<newline>'',
       ''        '']))\<close>

definition dashboard_html :: "pystr" where
  \<open>dashboard_html =
     dedent (ustr (concat
      [''{% extends \'base.html\' %}\<newline>'',
       ''        {% block title %}Dashboard{% endblock %}\<newline>'',
       ''        {% block navbar %}{% include \'partials/_dashboard_navbar.html\' %}{% endblock %}\<newline>'',
       ''        {% block content %}\<newline>'',
       ''        <div class="row">\<newline>'',
       ''          <div class="col-12">\<newline>'',
       ''            <h1 class="mb-3">Dashboard</h1>\<newline>'',
       ''            <p class="lead">This is an example of an authenticated-only area of your application.</p>\<newline>'',
       ''\<newline>'',
       ''            <div class="row g-3">\<newline>'',
       ''              <div class="col-md-4">\<newline>'',
       ''                <div class="card h-100">\<newline>'',
       ''                  <div class="card-body">\<newline>'',
       ''                    <h5 class="card-title">Metric A</h5>\<newline>'',
       ''                    <p class="card-text">Placeholder content for analytics or key metrics.</p>\<newline>'',
       ''                  </div>\<newline>'',
       ''                </div>\<newline>'',
       ''              </div>\<newline>'',
       ''              <div class="col-md-4">\<newline>'',
       ''                <div class="card h-100">\<newline>'',
       ''                  <div class="card-body">\<newline>'',
       ''                    <h5 class="card-title">Metric B</h5>\<newline>'',
       ''                    <p class="card-text">Highlight something important for signed-in users.</p>\<newline>'',
       ''                  </div>\<newline>'',
       ''                </div>\<newline>'',
       ''              </div>\<newline>'',
       ''              <div class="col-md-4">\<newline>'',
       ''                <div class="card h-100">\<newline>'',
       ''                  <div class="card-body">\<newline>'',
       ''                    <h5 class="card-title">Metric C</h5>\<newline>'',
       ''                    <p class="card-text">Use this area for actions or shortcuts.</p>\<newline>'',
       ''                  </div>\<newline>'',
       ''                </div>\<newline>'',
       ''              </div>\<newline>'',
       ''            </div>\<newline>'',
       ''          </div>\<newline>'',
       ''        </div>\<newline>'',
       ''        {% endblock %}\<newline>'',
       ''        '']))\<close>

definition error_404_public :: "pystr" where
  \<open>error_404_public =
     dedent (ustr (concat
      [''{% extends \'base.html\' %}\<newline>'',
       ''        {% block title %}Page not found{% endblock %}\<newline>'',
       ''        {% block navbar %}{% include \'partials/_public_navbar.html\' %}{% endblock %}\<newline>'',
       ''        {% block content %}\<newline>'',
       ''        <div class="text-center py-5">\<newline>'',
       ''          <h1 class="display-4">404</h1>\<newline>'',
       ''          <p class="lead">The page you are looking for does not exist.</p>\<newline>'',
       ''        </div>\<newline>'',
       ''        {% endblock %}\<newline>'',
       ''        '']))\<close>

definition error_404_dashboard :: "pystr" where
  \<open>error_404_dashboard =
     dedent (ustr (concat
      [''{% extends \'base.html\' %}\<newline>'',
       ''        {% block title %}Page not found{% endblock %}\<newline>'',
       ''        {% block navbar %}{% include \'partials/_dashboard_navbar.html\' %}{% endblock %}\<newline>'',
       ''        {% block content %}\<newline>'',
       ''        <div class="text-center py-5">\<newline>'',
       ''          <h1 class="display-4">404</h1>\<newline>'',
       ''          <p class="lead">The page you are looking for does not exist.</p>\<newline>'',
       ''        </div>\<newline>'',
       ''        {% endblock %}\<newline>'',
       ''        '']))\<close>

definition error_500_public :: "pystr" where
  \<open>error_500_public =
     dedent (ustr (concat
      [''{% extends \'base.html\' %}\<newline>'',
       ''        {% block title %}Server error{% endblock %}\<newline>'',
       ''        {% block navbar %}{% include \'partials/_public_navbar.html\' %}{% endblock %}\<newline>'',
       ''        {% block content %}\<newline>'',
       ''        <div class="text-center py-5">\<newline>'',
       ''          <h1 class="display-4">500</h1>\<newline>'',
       ''          <p class="lead">An unexpected error occurred. Please try again later.</p>\<newline>'',
       ''        </div>\<newline>'',
       ''        {% endblock %}\<newline>'',
       ''        '']))\<close>

definition error_500_dashboard :: "pystr" where
  \<open>error_500_dashboard =
     dedent (ustr (concat
      [''{% extends \'base.html\' %}\<newline>'',
       ''        {% block title %}Server error{% endblock %}\<newline>'',
       ''        {% block navbar %}{% include \'partials/_dashboard_navbar.html\' %}{% endblock %}\<newline>'',
       ''        {% block content %}\<newline>'',
       ''        <div class="text-center py-5">\<newline>'',
       ''          <h1 class="display-4">500</h1>\<newline>'',
       ''          <p class="lead">An unexpected error occurred. Please try again later.</p>\<newline>'',
       ''        </div>\<newline>'',
       ''        {% endblock %}\<newline>'',
       ''        '']))\<close>

definition reset_txt :: "pystr" where
  \<open>reset_txt =
     dedent (ustr (concat
      [''Hello {{ user.username }},\<newline>'',
       ''\<newline>'',
       ''        To reset your password, visit the following link:\<newline>'',
       ''\<newline>'',
       ''        {{ url_for(\'reset_password\', token=token, _external=true) }}\<newline>'',
       ''\<newline>'',
       ''        If you did not request this email, you can ignore it.\<newline>'',
       ''        '']))\<close>

definition reset_html :: "pystr" where
  \<open>reset_html =
     dedent (ustr (concat
      [''<!doctype html>\<newline>'',
       ''        <html>\<newline>'',
       ''          <body>\<newline>'',
       ''            <p>Hello {{ user.username }},</p>\<newline>'',
       ''            <p>To reset your password, click the link below:</p>\<newline>'',
       ''            <p><a href="{{ url_for(\'reset_password\', token=token, _external=true) }}">Reset password</a></p>\<newline>'',
       ''            <p>If you did not request this email, you can ignore it.</p>\<newline>'',
       ''          </body>\<newline>'',
       ''        </html>\<newline>'',
       ''        '']))\<close>

definition main_css :: "pystr" where
  \<open>main_css =
     dedent (ustr (concat
      [''html,\<newline>'',
       ''        body {\<newline>'',
       ''          height: 100%;\<newline>'',
       ''        }\<newline>'',
       ''\<newline>'',
       ''        body {\<newline>'',
       ''          min-height: 100%;\<newline>'',
       ''          display: flex;\<newline>'',
       ''          flex-direction: column;\<newline>'',
       ''        }\<newline>'',
       ''\<newline>'',
       ''        main {\<newline>'',
       ''          flex: 1 0 auto;\<newline>'',
       ''        }\<newline>'',
       ''\<newline>'',
       ''        footer {\<newline>'',
       ''          flex-shrink: 0;\<newline>'',
       ''        }\<newline>'',
       ''\<newline>'',
       ''        .navbar-brand {\<newline>'',
       ''          font-weight: 600;\<newline>'',
       ''        }\<newline>'',
       ''        '']))\<close>

definition dashboard_css :: "pystr" where
  \<open>dashboard_css =
     dedent (ustr (concat
      [''body {\<newline>'',
       ''          background-color: #f5f5f5;\<newline>'',
       ''        }\<newline>'',
       ''\<newline>'',
       ''        .card {\<newline>'',
       ''          box-shadow: 0 0.125rem 0.25rem rgba(0, 0, 0, 0.075);\<newline>'',
       ''        }\<newline>'',
       ''        '']))\<close>

definition main_js :: "pystr" where
  \<open>main_js =
     dedent (ustr (concat
      [''document.addEventListener(\'DOMContentLoaded\', () => {\<newline>'',
       ''          // Place global JavaScript for your Flask project here.\<newline>'',
       ''        });\<newline>'',
       ''        '']))\<close>

definition dashboard_js :: "pystr" where
  \<open>dashboard_js =
     dedent (ustr (concat
      [''document.addEventListener(\'DOMContentLoaded\', () => {\<newline>'',
       ''          // Place dashboard-specific JavaScript code here.\<newline>'',
       ''        });\<newline>'',
       ''        '']))\<close>

definition requirements :: "pystr" where
  \<open>requirements =
     dedent (ustr (concat
      [''flask\<newline>'',
       ''        python-dotenv\<newline>'',
       ''        email-validator\<newline>'',
       ''        flask-login\<newline>'',
       ''        flask-migrate\<newline>'',
       ''        flask-sqlalchemy\<newline>'',
       ''        flask-moment\<newline>'',
       ''        flask-mail\<newline>'',
       ''        flask-wtf\<newline>'',
       ''        pyjwt\<newline>'',
       ''        '']))\<close>

definition pyproject :: "pystr \<Rightarrow> pystr \<Rightarrow> pystr \<Rightarrow> pystr \<Rightarrow> pystr \<Rightarrow> pystr" where
  \<open>pyproject poetry_name poetry_version poetry_description authors_field requires_python =
     dedent (concat
      [ustr ''[project]\<newline>'',
       ustr ''        name = "'', poetry_name, ustr ''"\<newline>'',
       ustr ''        version = "'', poetry_version, ustr ''"\<newline>'',
       ustr ''        description = "'', poetry_description, ustr ''"\<newline>'',
       ustr ''        authors = [\<newline>'',
       ustr ''            '', authors_field, ustr ''\<newline>'',
       ustr ''        ]\<newline>'',
       ustr ''        license = {file = "LICENSE"}\<newline>'',
       ustr ''        readme = "README.md"\<newline>'',
       ustr ''        requires-python = "'', requires_python, ustr ''"\<newline>'',
       ustr ''        dependencies = []\<newline>'',
       ustr ''\<newline>'',
       ustr ''\<newline>'',
       ustr ''        [build-system]\<newline>'',
       ustr ''        requires = ["poetry-core>=2.0.0,<3.0.0"]\<newline>'',
       ustr ''        build-backend = "poetry.core.masonry.api"\<newline>'',
       ustr ''\<newline>'',
       ustr ''        [tool.poetry]\<newline>'',
       ustr ''        package-mode = false\<newline>'',
       ustr ''        ''])\<close>

section \<open>The scaffold functions\<close>

text \<open>
  \<open>scaffold_top_level_files\<close> also computes \<open>year = str(platform.python_version())\<close>
  before the licence text.
\<close>

definition scaffold_top_level_files ::
  "host \<Rightarrow> path \<Rightarrow> pystr \<Rightarrow> pystr \<Rightarrow> pystr \<Rightarrow> bool \<Rightarrow> unit io" where
  "scaffold_top_level_files h project_root project_name description author use_poetry =
     io_seq
       [write_text h (joinpath project_root [(ustr ''.flaskenv'')]) flaskenv,
        write_text h (joinpath project_root [(ustr ''.env'')]) dotenv,
        write_text h (joinpath project_root [(ustr ''.gitignore'')]) gitignore,
        write_text h (joinpath project_root [(ustr ''.gitattributes'')]) gitattributes,
        (let year = python_version h
         in write_text h (joinpath project_root [(ustr ''LICENSE'')]) (license_text author)),
        write_text h (joinpath project_root [(ustr ''README.md'')]) (readme project_name description),
        write_text h (joinpath project_root [(ustr ''CONTRIBUTING.md'')]) contributing,
        write_text h (joinpath project_root [(ustr ''CODE_OF_CONDUCT.md'')]) coc]"

definition scaffold_config_and_main :: "host \<Rightarrow> path \<Rightarrow> unit io" where
  "scaffold_config_and_main h project_root =
     io_seq
       [write_text h (joinpath project_root [(ustr ''config.py'')]) config_py,
        write_text h (joinpath project_root [(ustr ''app''), (ustr ''__init__.py'')]) app_init,
        write_text h (joinpath project_root [(ustr ''main.py'')]) main_py]"

definition scaffold_models_forms_email_errors :: "host \<Rightarrow> path \<Rightarrow> unit io" where
  "scaffold_models_forms_email_errors h project_root =
     io_seq
       [write_text h (joinpath project_root [(ustr ''app''), (ustr ''models.py'')]) models_py,
        write_text h (joinpath project_root [(ustr ''app''), (ustr ''auth''), (ustr ''forms.py'')]) auth_forms_py,
        write_text h (joinpath project_root [(ustr ''app''), (ustr ''main''), (ustr ''forms.py'')]) main_forms_py,
        write_text h (joinpath project_root [(ustr ''app''), (ustr ''email.py'')]) email_py,
        write_text h (joinpath project_root [(ustr ''app''), (ustr ''errors''), (ustr ''__init__.py'')]) errors_init,
        write_text h (joinpath project_root [(ustr ''app''), (ustr ''errors''), (ustr ''handlers.py'')]) errors_handlers]"

definition scaffold_utils :: "host \<Rightarrow> path \<Rightarrow> unit io" where
  "scaffold_utils h project_root =
     io_seq
       [write_text h (joinpath project_root [(ustr ''app''), (ustr ''utils''), (ustr ''__init__.py'')]) utils_init,
        write_text h (joinpath project_root [(ustr ''app''), (ustr ''utils''), (ustr ''decorators.py'')]) decorators_py]"

definition scaffold_routes :: "host \<Rightarrow> path \<Rightarrow> unit io" where
  "scaffold_routes h project_root =
     io_seq
       [write_text h (joinpath project_root [(ustr ''app''), (ustr ''main''), (ustr ''__init__.py'')]) main_init,
        write_text h (joinpath project_root [(ustr ''app''), (ustr ''main''), (ustr ''routes.py'')]) main_routes,
        write_text h (joinpath project_root [(ustr ''app''), (ustr ''auth''), (ustr ''__init__.py'')]) auth_init,
        write_text h (joinpath project_root [(ustr ''app''), (ustr ''auth''), (ustr ''email.py'')]) auth_email_py,
        write_text h (joinpath project_root [(ustr ''app''), (ustr ''auth''), (ustr ''routes.py'')]) auth_routes,
        write_text h (joinpath project_root [(ustr ''app''), (ustr ''admin''), (ustr ''__init__.py'')]) admin_init,
        write_text h (joinpath project_root [(ustr ''app''), (ustr ''admin''), (ustr ''routes.py'')]) admin_routes]"

definition scaffold_templates :: "host \<Rightarrow> path \<Rightarrow> unit io" where
  "scaffold_templates h project_root =
     (let templates_root = joinpath project_root [(ustr ''app''), (ustr ''templates'')]
      in io_seq
       [write_text h (joinpath templates_root [(ustr ''base.html'')]) base_html,
        write_text h (joinpath templates_root [(ustr ''partials''), (ustr ''_flash_messages.html'')]) flash_messages,
        write_text h (joinpath templates_root [(ustr ''partials''), (ustr ''_footer.html'')]) footer,
        write_text h (joinpath templates_root [(ustr ''partials''), (ustr ''_public_navbar.html'')]) public_navbar,
        write_text h (joinpath templates_root [(ustr ''partials''), (ustr ''_dashboard_navbar.html'')]) dashboard_navbar,
        write_text h (joinpath templates_root [(ustr ''main''), (ustr ''index.html'')]) index_html,
        write_text h (joinpath templates_root [(ustr ''main''), (ustr ''contact.html'')]) contact_html,
        write_text h (joinpath templates_root [(ustr ''auth''), (ustr ''login.html'')]) login_html,
        write_text h (joinpath templates_root [(ustr ''auth''), (ustr ''register.html'')]) register_html,
        write_text h (joinpath templates_root [(ustr ''auth''), (ustr ''request_password_reset.html'')]) request_reset_html,
        write_text h (joinpath templates_root [(ustr ''auth''), (ustr ''reset_password.html'')]) reset_password_html,
        write_text h (joinpath templates_root [(ustr ''dashboard''), (ustr ''dashboard.html'')]) dashboard_html,
        write_text h (joinpath templates_root [(ustr ''errors''), (ustr ''404_public.html'')]) error_404_public,
        write_text h (joinpath templates_root [(ustr ''errors''), (ustr ''404_dashboard.html'')]) error_404_dashboard,
        write_text h (joinpath templates_root [(ustr ''errors''), (ustr ''500_public.html'')]) error_500_public,
        write_text h (joinpath templates_root [(ustr ''errors''), (ustr ''500_dashboard.html'')]) error_500_dashboard,
        write_text h (joinpath templates_root [(ustr ''emails''), (ustr ''reset_password.txt'')]) reset_txt,
        write_text h (joinpath templates_root [(ustr ''emails''), (ustr ''reset_password.html'')]) reset_html])"

definition scaffold_static :: "host \<Rightarrow> path \<Rightarrow> unit io" where
  "scaffold_static h project_root =
     (let static_root = joinpath project_root [(ustr ''app''), (ustr ''static'')]
      in io_seq
       [write_text h (joinpath static_root [(ustr ''css''), (ustr ''main.css'')]) main_css,
        write_text h (joinpath static_root [(ustr ''css''), (ustr ''dashboard.css'')]) dashboard_css,
        write_text h (joinpath static_root [(ustr ''js''), (ustr ''main.js'')]) main_js,
        write_text h (joinpath static_root [(ustr ''js''), (ustr ''dashboard.js'')]) dashboard_js,
        write_text h (joinpath static_root [(ustr ''img''), (ustr ''.gitkeep'')]) (ustr '''')])"

section \<open>The workflow finalizers\<close>

definition write_requirements :: "host \<Rightarrow> path \<Rightarrow> unit io" where
  "write_requirements h project_root =
     write_text h (joinpath project_root [(ustr ''requirements.txt'')]) requirements"

definition write_poetry_files ::
  "host \<Rightarrow> path \<Rightarrow> pystr \<Rightarrow> pystr \<Rightarrow> pystr \<Rightarrow> pystr \<Rightarrow> pystr \<Rightarrow> pystr \<Rightarrow> pystr
     \<Rightarrow> unit io" where
  \<open>write_poetry_files h project_root poetry_name poetry_version poetry_description
       author_name author_email license_id requires_python =
     (let authors_field =
            (if author_email \<noteq> []
             then concat [(ustr ''{name = "''), author_name, (ustr ''", email = "''), author_email, (ustr ''"}'')]
             else concat [(ustr ''{name = "''), author_name, (ustr ''"}'')])
      in write_text h (joinpath project_root [(ustr ''pyproject.toml'')])
           (pyproject poetry_name poetry_version poetry_description authors_field
              requires_python))\<close>

definition alias_line :: pystr where
  "alias_line = ustr (''alias pf='' @ [CHR 0x27] @ ''poetry run flask'' @ [CHR 0x27])"

definition has_pf_alias :: "pystr \<Rightarrow> bool" where
  "has_pf_alias content =
     list_ex (\<lambda>line. startswith (py_strip line) (ustr ''alias pf='')) (splitlines content)"

text \<open>
  \<open>ensure_poetry_alias\<close>: the loop over the lines of an existing file returns at the
  first line that, stripped, starts with \<open>alias pf=\<close>; without such a line (or
  without a file, with the empty content) the new content is written.
\<close>

definition ensure_poetry_alias :: "host \<Rightarrow> unit io" where
  "ensure_poetry_alias h =
     io_bind (detect_platform h)
       (\<lambda>system w.
          let rc_path =
                (if system \<in> set [ustr ''macos'', ustr ''ubuntu'', ustr ''wsl'', ustr ''linux'']
                 then
                   (let shell = (case environ_get h (ustr ''SHELL'') of
                                   None \<Rightarrow> [] | Some v \<Rightarrow> v)
                    in if endswith shell (ustr ''zsh'') then joinpath (home h) [ustr ''.zshrc'']
                       else joinpath (home h) [ustr ''.bashrc''])
                 else joinpath (home h) [ustr ''.bashrc''])
          in io_bind
               (if path_exists w rc_path then path_read_text rc_path else io_return [])
               (\<lambda>content.
                  if path_exists w rc_path \<and> has_pf_alias content then
                    py_print (concat [ustr ''Alias '', ustr [CHR 0x27], ustr ''pf'',
                                      ustr [CHR 0x27], ustr '' already present in '',
                                      path_str rc_path, ustr ''.''])
                  else
                    (let new_content = rstrip_nl content @ [NL] @ alias_line @ [NL]
                     in io_then (path_write_text h rc_path new_content)
                          (py_print (concat [ustr ''Added alias '', ustr [CHR 0x27], ustr ''pf'',
                                             ustr [CHR 0x27], ustr '' to '', path_str rc_path,
                                             ustr ''. You may need to reload your shell.''])))) w)"

section \<open>The script\<close>

definition menu_choices :: "(pystr \<times> pystr) list" where
  "menu_choices =
     [((ustr ''1''), (ustr ''pyenv + Poetry (pyproject.toml)'')),
      ((ustr ''2''), (ustr ''pyenv + pyenv-virtualenv + requirements.txt'')),
      ((ustr ''q''), (ustr ''Quit''))]"

text \<open>
  The Poetry branch of \<open>main\<close>: seven prompts, then \<open>write_poetry_files\<close> and
  \<open>ensure_poetry_alias\<close>.
\<close>

definition main_poetry ::
  "host \<Rightarrow> path \<Rightarrow> pystr \<Rightarrow> pystr \<Rightarrow> pystr \<Rightarrow> unit io" where
  "main_poetry h project_root project_name description author =
     io_then
       (py_print (ustr ''\<newline>Poetry configuration (these values will go into pyproject.toml):''))
    (io_bind (prompt_with_default (ustr ''Project name'') project_name) (\<lambda>poetry_name.
     io_bind (prompt_with_default (ustr ''Version'') (ustr ''0.1.0'')) (\<lambda>poetry_version.
     io_bind (prompt_with_default (ustr ''Description'') description) (\<lambda>poetry_description.
     io_bind (prompt_with_default (ustr ''Author name'') author) (\<lambda>author_name.
     io_bind (prompt_with_default (ustr ''Author email'') (ustr ''you@example.com'')) (\<lambda>author_email.
     io_bind (prompt_with_default (ustr ''License identifier (used alongside LICENSE file)'') (ustr ''MIT''))
       (\<lambda>license_id.
     io_bind (prompt_with_default (ustr ''Required Python version (PEP 440 range)'') (ustr ''>=3.10,<4.0''))
       (\<lambda>requires_python.
     io_then
       (write_poetry_files h project_root poetry_name poetry_version poetry_description
          author_name author_email license_id requires_python)
       (ensure_poetry_alias h)))))))))"

text \<open>The closing summary of \<open>main\<close>, from \<open>Done!\<close> on.\<close>

definition main_summary :: "path \<Rightarrow> bool \<Rightarrow> unit io" where
  \<open>main_summary project_root use_poetry =
     io_seq
       [py_print (ustr ''\<newline>Done!\<newline>''),
        py_print ((ustr ''Your new Flask project is at: '') @ path_str project_root),
        py_print (ustr ''\<newline>Next steps (summary):''),
        py_print (ustr ''  1. Create/activate a virtual environment for this project.''),
        (if use_poetry then
           io_seq
             [py_print (concat [(ustr ''  2. Run `cd''), (ustr '' ''), path_str project_root, (ustr '' ''),
                                (ustr ''&& poetry add ''), (ustr [CHR 0x5C])]),
              py_print (ustr ''         flask flask-sqlalchemy flask-migrate flask-login flask-wtf flask-mail flask-moment python-dotenv email-validator pyjwt`.''),
              py_print (ustr ''     This will update pyproject.toml and generate a valid poetry.lock file.''),
              py_print (ustr ''     If you manually change pyproject.toml later, run `poetry lock` to refresh poetry.lock.''),
              py_print (ustr ''  3. Start the dev server with `pf run` (alias for `poetry run flask`).'')]
         else
           io_seq
             [py_print (concat [(ustr ''  2. Run `cd''), (ustr '' ''), path_str project_root, (ustr '' ''),
                                (ustr ''&& pip install -r requirements.txt`.'')]),
              py_print (ustr ''  3. Whenever you change dependencies in that virtualenv, run `pip3 freeze > requirements.txt`.''),
              py_print (ustr ''  4. Start the dev server with `flask run` (inside the active virtualenv).'')])]\<close>

text \<open>The part of \<open>main\<close> that follows \<open>ensure_project_dir\<close>.\<close>

definition main_scaffold ::
  "host \<Rightarrow> pystr \<Rightarrow> path \<Rightarrow> pystr \<Rightarrow> pystr \<Rightarrow> pystr \<Rightarrow> unit io" where
  "main_scaffold h option project_root project_name description author =
     (let use_poetry = (option = (ustr ''1''))
      in io_seq
          [py_print (ustr ''\<newline>Scaffolding Flask project structure...\<newline>''),
           scaffold_top_level_files h project_root project_name description author use_poetry,
           scaffold_config_and_main h project_root,
           scaffold_models_forms_email_errors h project_root,
           scaffold_utils h project_root,
           scaffold_routes h project_root,
           scaffold_templates h project_root,
           scaffold_static h project_root,
           (if use_poetry then main_poetry h project_root project_name description author
            else write_requirements h project_root),
           main_summary project_root use_poetry])"

definition main :: "host \<Rightarrow> unit io" where
  "main h =
     io_then print_header
    (io_bind (prompt_choice (ustr ''Choose your environment workflow:'') menu_choices) (\<lambda>option.
     if option = (ustr ''q'') then io_then (py_print (ustr ''Aborting.'')) (sys_exit 0)
     else
     io_bind (ensure_prereqs h option) (\<lambda>ok.
     if \<not> ok then sys_exit 1
     else
     io_bind (prompt_with_default
                (ustr ''Project folder name (will be created in your home directory)'')
                (ustr ''flask_project'')) (\<lambda>project_name.
     io_bind (prompt_with_default (ustr ''Short project description'')
                (ustr ''A starter Flask application.'')) (\<lambda>description.
     io_bind (prompt_with_default (ustr ''Author / owner name'') (ustr ''Your Name'')) (\<lambda>author.
     io_bind (ensure_project_dir h project_name) (\<lambda>project_root.
     main_scaffold h option project_root project_name description author)))))))"

section \<open>Example hosts and worlds\<close>

text \<open>
  A host with pyenv, pyenv-virtualenv and Poetry, bash as the login shell, and a world
  whose home directory \<open>/home/u\<close> is empty.
\<close>

definition h_user :: host where
  "h_user = \<lparr>home = [(ustr ''home''), (ustr ''u'')], on_path = [(ustr ''pyenv''), (ustr ''poetry'')],
     pyenv_virtualenvs = Some 0, platform_system = (ustr ''Linux''), platform_release = (ustr ''6.1.0''),
     python_version = (ustr ''3.12.1''), environ = [((ustr ''SHELL''), (ustr ''/bin/bash''))],
     unicode_lower = (\<lambda>s. s)\<rparr>"

definition w_home :: world where
  "w_home = \<lparr>fs = [([(ustr ''home'')], Dir), ([(ustr ''home''), (ustr ''u'')], Dir)], readonly = [],
     stdin = [], stdout = []\<rparr>"

text \<open>A host without Poetry, and one whose pyenv has no virtualenv plugin.\<close>

definition h_no_poetry :: host where
  "h_no_poetry = h_user\<lparr>on_path := [(ustr ''pyenv'')]\<rparr>"

definition h_no_plugin :: host where
  "h_no_plugin = h_user\<lparr>pyenv_virtualenvs := Some 1\<rparr>"

section \<open>The workflows and their prerequisites, as the specification states them\<close>

text \<open>
  The specification has two workflows; the script knows them by the menu keys \<open>1\<close> and
  \<open>2\<close>. Both require pyenv; the Poetry workflow requires Poetry as well, the requirements
  workflow pyenv-virtualenv. A tool is available on a host when the script's check for it
  succeeds, and a missing tool is reported by one line of \<open>ensure_prereqs\<close>.
\<close>

datatype workflow = PoetryManaged | RequirementsFileManaged

datatype tool = Pyenv | Poetry | PyenvVirtualenv

fun option_key :: "workflow \<Rightarrow> pystr" where
  "option_key PoetryManaged = (ustr ''1'')"
| "option_key RequirementsFileManaged = (ustr ''2'')"

fun required_tools :: "workflow \<Rightarrow> tool list" where
  "required_tools PoetryManaged = [Pyenv, Poetry]"
| "required_tools RequirementsFileManaged = [Pyenv, PyenvVirtualenv]"

fun tool_available :: "host \<Rightarrow> tool \<Rightarrow> bool" where
  "tool_available h Pyenv = check_pyenv h"
| "tool_available h Poetry = check_poetry h"
| "tool_available h PyenvVirtualenv = check_pyenv_virtualenv h"

fun missing_report :: "tool \<Rightarrow> pystr" where
  "missing_report Pyenv = (ustr ''- pyenv not found on PATH.'')"
| "missing_report Poetry = (ustr ''- Poetry not found on PATH.'')"
| "missing_report PyenvVirtualenv = (ustr ''- pyenv-virtualenv plugin does not appear to be installed.'')"

definition missing_tools :: "host \<Rightarrow> workflow \<Rightarrow> tool list" where
  "missing_tools h wk = filter (\<lambda>t. \<not> tool_available h t) (required_tools wk)"

section \<open>Paths that can be written\<close>

text \<open>
  \<open>write_text\<close> goes through for a path when the path is not the root and not a
  directory, no proper prefix of it is a file, and neither the path nor a prefix of it
  is read-only.
\<close>

definition is_file :: "world \<Rightarrow> path \<Rightarrow> bool" where
  "is_file w p = (case node_at w p of Some (File c) \<Rightarrow> True | _ \<Rightarrow> False)"

definition can_mkdir :: "world \<Rightarrow> path \<Rightarrow> bool" where
  "can_mkdir w d = list_all (\<lambda>q. q \<notin> set (readonly w) \<and> \<not> is_file w q) (prefixes d)"

definition writable_at :: "world \<Rightarrow> path \<Rightarrow> bool" where
  "writable_at w p =
     (p \<noteq> [] \<and> \<not> is_dir w p \<and> p \<notin> set (readonly w) \<and> can_mkdir w (parent p))"

text \<open>
  How a world changes by actions that only create directories on the way to \<open>d\<close>
  (\<open>grown\<close>), or that write the files \<open>P\<close> and print (\<open>wrote\<close>): standard input and
  the read-only paths stay, and a node is as before, or a written file, or a new
  directory above one.
\<close>

definition grown :: "world \<Rightarrow> path \<Rightarrow> world \<Rightarrow> bool" where
  "grown w d w' =
     (readonly w' = readonly w \<and> stdin w' = stdin w \<and> stdout w' = stdout w \<and>
      (\<forall>q. node_at w' q = node_at w q
           \<or> (node_at w q = None \<and> prefix q d \<and> node_at w' q = Some Dir)))"

definition wrote :: "world \<Rightarrow> path set \<Rightarrow> world \<Rightarrow> bool" where
  "wrote w P w' =
     (readonly w' = readonly w \<and> stdin w' = stdin w \<and>
      (\<forall>q. node_at w' q = node_at w q
           \<or> (q \<in> P \<and> is_file w' q)
           \<or> (node_at w q = None \<and> node_at w' q = Some Dir \<and> (\<exists>p\<in>P. strict_prefix q p))))"

text \<open>
  A directory with nothing in it and nothing read-only on the way to it or below it;
  the answer that \<open>prompt_with_default\<close> returns for a line; and the startup file that
  \<open>ensure_poetry_alias\<close> chooses, which depends on the host only (\<open>detect_platform\<close>
  answers \<open>ubuntu\<close> or \<open>linux\<close> for a Linux host, and both choose by the shell).
\<close>

definition nothing_below :: "world \<Rightarrow> path \<Rightarrow> bool" where
  "nothing_below w root =
     list_all (\<lambda>q. \<not> strict_prefix root q) (map fst (fs w) @ readonly w)"

definition empty_dir :: "world \<Rightarrow> path \<Rightarrow> bool" where
  "empty_dir w root = (is_dir w root \<and> can_mkdir w root \<and> nothing_below w root)"


definition unix_like :: "host \<Rightarrow> bool" where
  "unix_like h =
     (contains (py_lower h (platform_release h)) (ustr ''microsoft'')
      \<or> (case environ_get h (ustr ''WSL_DISTRO_NAME'') of None \<Rightarrow> False | Some v \<Rightarrow> v \<noteq> [])
      \<or> py_lower h (platform_system h) = (ustr ''darwin'')
      \<or> py_lower h (platform_system h) = (ustr ''linux''))"

definition rc_path_of :: "host \<Rightarrow> path" where
  "rc_path_of h =
     (if unix_like h
         \<and> endswith (case environ_get h (ustr ''SHELL'') of None \<Rightarrow> [] | Some v \<Rightarrow> v) (ustr ''zsh'')
      then home h @ [(ustr ''.zshrc'')] else home h @ [(ustr ''.bashrc'')])"

text \<open>Two worlds with the same file system.\<close>

definition same_files :: "world \<Rightarrow> world \<Rightarrow> bool" where
  "same_files w w' = (fs w' = fs w \<and> readonly w' = readonly w)"


text \<open>
  A world in which \<open>/home/u/blog\<close> already holds a file of the user's.
\<close>

definition w_blog_taken :: world where
  "w_blog_taken = \<lparr>fs = [([(ustr ''home'')], Dir), ([(ustr ''home''), (ustr ''u'')], Dir),
       ([(ustr ''home''), (ustr ''u''), (ustr ''blog'')], Dir),
       ([(ustr ''home''), (ustr ''u''), (ustr ''blog''), (ustr ''notes.txt'')], File ''mine\<newline>'')],
     readonly = [], stdin = [], stdout = []\<rparr>"

text \<open>
  The file at \<open>p\<close> holds what \<open>write_text\<close> writes for the content \<open>c\<close>: the encoded
  content with one trailing newline.
\<close>

definition written :: "host \<Rightarrow> pystr \<Rightarrow> world \<Rightarrow> path \<Rightarrow> bool" where
  "written h c w p =
     (case utf8_encode (to_linesep h (rstrip_nl c @ [NL])) of
        None \<Rightarrow> False
      | Some b \<Rightarrow> node_at w p = Some (File b))"

section \<open>The template catalog\<close>

text \<open>
  The specification's template catalog: for each scaffold function, the files it writes
  below the project root, in order, each with the text passed to \<open>write_text\<close>.
\<close>

definition write_all :: "host \<Rightarrow> (path \<times> pystr) list \<Rightarrow> unit io" where
  "write_all h es = io_seq (map (\<lambda>(p, c). write_text h p c) es)"

definition catalog_top_level_files :: "pystr \<Rightarrow> pystr \<Rightarrow> pystr \<Rightarrow> (path \<times> pystr) list" where
  "catalog_top_level_files project_name description author =
     [([ustr ''.flaskenv''], flaskenv),
      ([ustr ''.env''], dotenv),
      ([ustr ''.gitignore''], gitignore),
      ([ustr ''.gitattributes''], gitattributes),
      ([ustr ''LICENSE''], (license_text author)),
      ([ustr ''README.md''], (readme project_name description)),
      ([ustr ''CONTRIBUTING.md''], contributing),
      ([ustr ''CODE_OF_CONDUCT.md''], coc)]"

definition catalog_config_and_main :: "(path \<times> pystr) list" where
  "catalog_config_and_main =
     [([ustr ''config.py''], config_py),
      ([ustr ''app'', ustr ''__init__.py''], app_init),
      ([ustr ''main.py''], main_py)]"

definition catalog_models_forms_email_errors :: "(path \<times> pystr) list" where
  "catalog_models_forms_email_errors =
     [([ustr ''app'', ustr ''models.py''], models_py),
      ([ustr ''app'', ustr ''auth'', ustr ''forms.py''], auth_forms_py),
      ([ustr ''app'', ustr ''main'', ustr ''forms.py''], main_forms_py),
      ([ustr ''app'', ustr ''email.py''], email_py),
      ([ustr ''app'', ustr ''errors'', ustr ''__init__.py''], errors_init),
      ([ustr ''app'', ustr ''errors'', ustr ''handlers.py''], errors_handlers)]"

definition catalog_utils :: "(path \<times> pystr) list" where
  "catalog_utils =
     [([ustr ''app'', ustr ''utils'', ustr ''__init__.py''], utils_init),
      ([ustr ''app'', ustr ''utils'', ustr ''decorators.py''], decorators_py)]"

definition catalog_routes :: "(path \<times> pystr) list" where
  "catalog_routes =
     [([ustr ''app'', ustr ''main'', ustr ''__init__.py''], main_init),
      ([ustr ''app'', ustr ''main'', ustr ''routes.py''], main_routes),
      ([ustr ''app'', ustr ''auth'', ustr ''__init__.py''], auth_init),
      ([ustr ''app'', ustr ''auth'', ustr ''email.py''], auth_email_py),
      ([ustr ''app'', ustr ''auth'', ustr ''routes.py''], auth_routes),
      ([ustr ''app'', ustr ''admin'', ustr ''__init__.py''], admin_init),
      ([ustr ''app'', ustr ''admin'', ustr ''routes.py''], admin_routes)]"

definition catalog_templates :: "(path \<times> pystr) list" where
  "catalog_templates =
     [([ustr ''app'', ustr ''templates'', ustr ''base.html''], base_html),
      ([ustr ''app'', ustr ''templates'', ustr ''partials'', ustr ''_flash_messages.html''], flash_messages),
      ([ustr ''app'', ustr ''templates'', ustr ''partials'', ustr ''_footer.html''], footer),
      ([ustr ''app'', ustr ''templates'', ustr ''partials'', ustr ''_public_navbar.html''], public_navbar),
      ([ustr ''app'', ustr ''templates'', ustr ''partials'', ustr ''_dashboard_navbar.html''], dashboard_navbar),
      ([ustr ''app'', ustr ''templates'', ustr ''main'', ustr ''index.html''], index_html),
      ([ustr ''app'', ustr ''templates'', ustr ''main'', ustr ''contact.html''], contact_html),
      ([ustr ''app'', ustr ''templates'', ustr ''auth'', ustr ''login.html''], login_html),
      ([ustr ''app'', ustr ''templates'', ustr ''auth'', ustr ''register.html''], register_html),
      ([ustr ''app'', ustr ''templates'', ustr ''auth'', ustr ''request_password_reset.html''], request_reset_html),
      ([ustr ''app'', ustr ''templates'', ustr ''auth'', ustr ''reset_password.html''], reset_password_html),
      ([ustr ''app'', ustr ''templates'', ustr ''dashboard'', ustr ''dashboard.html''], dashboard_html),
      ([ustr ''app'', ustr ''templates'', ustr ''errors'', ustr ''404_public.html''], error_404_public),
      ([ustr ''app'', ustr ''templates'', ustr ''errors'', ustr ''404_dashboard.html''], error_404_dashboard),
      ([ustr ''app'', ustr ''templates'', ustr ''errors'', ustr ''500_public.html''], error_500_public),
      ([ustr ''app'', ustr ''templates'', ustr ''errors'', ustr ''500_dashboard.html''], error_500_dashboard),
      ([ustr ''app'', ustr ''templates'', ustr ''emails'', ustr ''reset_password.txt''], reset_txt),
      ([ustr ''app'', ustr ''templates'', ustr ''emails'', ustr ''reset_password.html''], reset_html)]"

definition catalog_static :: "(path \<times> pystr) list" where
  "catalog_static =
     [([ustr ''app'', ustr ''static'', ustr ''css'', ustr ''main.css''], main_css),
      ([ustr ''app'', ustr ''static'', ustr ''css'', ustr ''dashboard.css''], dashboard_css),
      ([ustr ''app'', ustr ''static'', ustr ''js'', ustr ''main.js''], main_js),
      ([ustr ''app'', ustr ''static'', ustr ''js'', ustr ''dashboard.js''], dashboard_js),
      ([ustr ''app'', ustr ''static'', ustr ''img'', ustr ''.gitkeep''], [])]"

definition catalog :: "pystr \<Rightarrow> pystr \<Rightarrow> pystr \<Rightarrow> (path \<times> pystr) list" where
  "catalog project_name description author =
     catalog_top_level_files project_name description author @ catalog_config_and_main
     @ catalog_models_forms_email_errors @ catalog_utils @ catalog_routes
     @ catalog_templates @ catalog_static"

text \<open>The entries of a catalog placed below a project root.\<close>

definition below :: "path \<Rightarrow> (path \<times> pystr) list \<Rightarrow> (path \<times> pystr) list" where
  "below root es = map (\<lambda>(r, c). (root @ r, c)) es"

definition prefix_free :: "path list \<Rightarrow> bool" where
  "prefix_free ps = list_all (\<lambda>p. list_all (\<lambda>q. \<not> strict_prefix p q) ps) ps"

section \<open>Strings of the script's text\<close>

lemma ustr_eq_iff [simp]: "ustr a = ustr b \<longleftrightarrow> a = b"
proof -
  have "inj (of_char :: char \<Rightarrow> nat)"
    by (rule injI) simp
  then show ?thesis
    unfolding ustr_def by (rule inj_map_eq_map)
qed

lemma ustr_Nil [simp]: "ustr [] = []"
  by (simp add: ustr_def)

lemma ustr_eq_Nil [simp]: "ustr s = [] \<longleftrightarrow> s = []" "[] = ustr s \<longleftrightarrow> s = []"
  by (auto simp: ustr_def)

lemma ustr_append: "ustr (a @ b) = ustr a @ ustr b"
  by (simp add: ustr_def)

lemma ustr_Cons: "ustr (c # cs) = of_char c # ustr cs"
  by (simp add: ustr_def)

section \<open>Running actions\<close>

lemma io_bind_Inr: "m w = (Inr x, w') \<Longrightarrow> io_bind m f w = f x w'"
  by (simp add: io_bind_def)

lemma io_bind_Inl: "m w = (Inl e, w') \<Longrightarrow> io_bind m f w = (Inl e, w')"
  by (simp add: io_bind_def)

lemma io_bind_InrE:
  assumes "io_bind m f w = (Inr y, w2)"
  obtains x w1 where "m w = (Inr x, w1)" and "f x w1 = (Inr y, w2)"
  using assms by (auto simp: io_bind_def split: prod.splits sum.splits)

lemma io_then_Inr: "m w = (Inr x, w') \<Longrightarrow> io_then m k w = k w'"
  by (simp add: io_then_def io_bind_def)

lemma io_then_Inl: "m w = (Inl e, w') \<Longrightarrow> io_then m k w = (Inl e, w')"
  by (simp add: io_then_def io_bind_def)

lemma io_then_InrE:
  assumes "io_then m k w = (Inr y, w2)"
  obtains x w1 where "m w = (Inr x, w1)" and "k w1 = (Inr y, w2)"
  using assms by (auto simp: io_then_def io_bind_def split: prod.splits sum.splits)

lemma node_at_emit [simp]: "node_at (emit s w) p = node_at w p"
  by (simp add: node_at_def emit_def)

lemma readonly_emit [simp]: "readonly (emit s w) = readonly w"
  by (simp add: emit_def)

lemma stdin_emit [simp]: "stdin (emit s w) = stdin w"
  by (simp add: emit_def)

lemma fs_emit [simp]: "fs (emit s w) = fs w"
  by (simp add: emit_def)

lemma stdout_emit [simp]: "stdout (emit s w) = stdout w @ s"
  by (simp add: emit_def)

lemma node_at_put_node:
  "p \<noteq> [] \<Longrightarrow> node_at (put_node p n w) q = (if q = p then Some n else node_at w q)"
  by (auto simp: node_at_def put_node_def update_conv')

section \<open>Trailing newlines\<close>

lemma rstrip_nl_decomp: "\<exists>k. s = rstrip_nl s @ replicate k NL"
proof -
  let ?t = "takeWhile (\<lambda>c. c = NL) (rev s)"
  have "rev s = ?t @ dropWhile (\<lambda>c. c = NL) (rev s)"
    by simp
  moreover have "?t = replicate (length ?t) NL"
    by (metis (mono_tags, lifting) replicate_eqI set_takeWhileD)
  ultimately have "rev s = replicate (length ?t) NL @ rev (rstrip_nl s)"
    by (simp add: rstrip_nl_def)
  then have "s = rstrip_nl s @ replicate (length ?t) NL"
    by (metis rev_append rev_replicate rev_rev_ident)
  then show ?thesis ..
qed

lemma rstrip_nl_last: "rstrip_nl s \<noteq> [] \<Longrightarrow> last (rstrip_nl s) \<noteq> NL"
proof -
  assume a: "rstrip_nl s \<noteq> []"
  then have "dropWhile (\<lambda>c. c = NL) (rev s) \<noteq> []"
    by (simp add: rstrip_nl_def)
  then have "hd (dropWhile (\<lambda>c. c = NL) (rev s)) \<noteq> NL"
    by (rule hd_dropWhile)
  then show ?thesis
    using a by (simp add: rstrip_nl_def last_rev)
qed

section \<open>Writing files\<close>


lemma can_mkdir_iff:
  "can_mkdir w d \<longleftrightarrow> (\<forall>q. prefix q d \<longrightarrow> q \<notin> set (readonly w) \<and> \<not> is_file w q)"
  by (auto simp: can_mkdir_def list_all_iff in_set_prefixes)

lemma can_mkdir_parent: "can_mkdir w d \<Longrightarrow> can_mkdir w (parent d)"
  unfolding can_mkdir_iff parent_def by (meson prefix_order.trans prefixeq_butlast)

lemma node_at_root [simp]: "node_at w [] = Some Dir"
  by (simp add: node_at_def)

lemma put_node_fields [simp]:
  "readonly (put_node p n w) = readonly w"
  "stdin (put_node p n w) = stdin w"
  "stdout (put_node p n w) = stdout w"
  by (simp_all add: put_node_def)

lemma grown_refl: "grown w d w"
  by (simp add: grown_def)

lemma os_mkdir_ok:
  assumes "node_at w d = None" "is_dir w (parent d)" "parent d \<notin> set (readonly w)"
  shows "os_mkdir d w = (Inr (), put_node d Dir w)"
  using assms by (simp add: os_mkdir_def is_dir_def)

lemma mkdir_parents_ok:
  "can_mkdir w d \<Longrightarrow> \<exists>w'. mkdir_parents d w = (Inr (), w') \<and> is_dir w' d \<and> grown w d w'"
proof (induction d arbitrary: w rule: rev_induct)
  case Nil
  show ?case
    by (subst mkdir_parents.simps) (simp add: os_mkdir_def is_dir_def grown_refl)
next
  case (snoc x ds)
  let ?d = "ds @ [x]"
  have par: "parent ?d = ds" by (simp add: parent_def)
  from snoc.prems have nf: "\<not> is_file w ?d" and cm: "can_mkdir w ds"
    and nr: "ds \<notin> set (readonly w)"
    using can_mkdir_parent [of w ?d] by (auto simp: can_mkdir_iff par)
  show ?case
  proof (cases "node_at w ?d")
    case (Some n)
    with nf have d: "node_at w ?d = Some Dir"
      by (cases n) (auto simp: is_file_def)
    show ?thesis
      by (subst mkdir_parents.simps) (simp add: os_mkdir_def d is_dir_def grown_refl)
  next
    case None
    from snoc.IH [OF cm] obtain w1 where m1: "mkdir_parents ds w = (Inr (), w1)"
      and d1: "is_dir w1 ds" and g1: "grown w ds w1" by blast
    have "\<not> prefix ?d ds"
      by (simp add: prefix_def)
    then have n1: "node_at w1 ?d = None"
      using g1 None unfolding grown_def by metis
    have r1: "ds \<notin> set (readonly w1)"
      using g1 nr by (simp add: grown_def)
    have mk: "os_mkdir ?d w1 = (Inr (), put_node ?d Dir w1)"
      using os_mkdir_ok [of w1 ?d] n1 d1 r1 by (simp add: par)
    have fin: "is_dir (put_node ?d Dir w1) ?d \<and> grown w ?d (put_node ?d Dir w1)"
      using g1 None unfolding is_dir_def grown_def
      by (auto simp: node_at_put_node)
    show ?thesis
    proof (cases "node_at w ds")
      case N: None
      then have ne: "ds \<noteq> []" by (auto simp: node_at_def)
      have "mkdir_parents ?d w = mkdir_exist_ok ?d w1"
        by (subst mkdir_parents.simps) (simp add: os_mkdir_def None N par m1)
      also have "\<dots> = (Inr (), put_node ?d Dir w1)"
        by (simp add: mkdir_exist_ok_def mk)
      finally show ?thesis using fin by blast
    next
      case (Some n)
      with cm have dd: "node_at w ds = Some Dir"
        by (cases n) (auto simp: can_mkdir_iff is_file_def)
      have "mkdir_parents ?d w = (Inr (), put_node ?d Dir w)"
        by (subst mkdir_parents.simps) (simp add: os_mkdir_def None dd par nr)
      moreover have "is_dir (put_node ?d Dir w) ?d \<and> grown w ?d (put_node ?d Dir w)"
        using None by (auto simp: is_dir_def node_at_put_node grown_def)
      ultimately show ?thesis by blast
    qed
  qed
qed



lemma wrote_refl: "wrote w P w"
  by (simp add: wrote_def)

lemma wrote_emit: "wrote w P w' \<Longrightarrow> wrote w P (emit s w')"
  by (simp add: wrote_def is_file_def)

lemma wrote_mono: "wrote w P w' \<Longrightarrow> P \<subseteq> Q \<Longrightarrow> wrote w Q w'"
  unfolding wrote_def by (meson subsetD)

lemma wroteD:
  "wrote w P w' \<Longrightarrow>
     node_at w' q = node_at w q \<or> (q \<in> P \<and> is_file w' q)
     \<or> (node_at w q = None \<and> node_at w' q = Some Dir \<and> (\<exists>p\<in>P. strict_prefix q p))"
  by (simp add: wrote_def)

lemma wrote_trans:
  assumes "wrote w P w1" "wrote w1 Q w2"
  shows "wrote w (P \<union> Q) w2"
proof -
  have "node_at w2 q = node_at w q \<or> (q \<in> P \<union> Q \<and> is_file w2 q)
        \<or> (node_at w q = None \<and> node_at w2 q = Some Dir \<and> (\<exists>p\<in>P \<union> Q. strict_prefix q p))" for q
    using wroteD [OF assms(1), of q] wroteD [OF assms(2), of q]
    by (auto simp: is_file_def)
  with assms show ?thesis
    by (simp add: wrote_def)
qed

lemma prefix_parent_strict: "p \<noteq> [] \<Longrightarrow> prefix q (parent p) \<Longrightarrow> strict_prefix q p"
proof -
  assume ne: "p \<noteq> []" and q: "prefix q (parent p)"
  then have "length q \<le> length (butlast p)"
    unfolding parent_def by (simp only: prefix_length_le)
  with ne have "q \<noteq> p"
    by (cases p rule: rev_cases) auto
  moreover have "prefix q p"
    using q prefixeq_butlast [of p] unfolding parent_def by (rule prefix_order.trans)
  ultimately show ?thesis
    by (simp add: strict_prefix_def)
qed

lemma wrote_writable:
  assumes "writable_at w p2" "wrote w P w'"
    and "\<forall>p\<in>P. \<not> strict_prefix p p2 \<and> \<not> strict_prefix p2 p"
  shows "writable_at w' p2"
proof -
  from assms(1) have ne: "p2 \<noteq> []" and nd: "\<not> is_dir w p2" and nr: "p2 \<notin> set (readonly w)"
    and cm: "can_mkdir w (parent p2)"
    by (simp_all add: writable_at_def)
  have sp: "prefix q (parent p2) \<Longrightarrow> strict_prefix q p2" for q
    using ne by (rule prefix_parent_strict)
  have 1: "\<not> is_dir w' p2"
    using wroteD [OF assms(2), of p2] assms(3) nd
    by (auto simp: is_dir_def is_file_def)
  have 2: "can_mkdir w' (parent p2)"
    unfolding can_mkdir_iff
  proof (intro allI impI conjI)
    fix q assume q: "prefix q (parent p2)"
    with cm have a: "q \<notin> set (readonly w)" "\<not> is_file w q"
      by (auto simp: can_mkdir_iff)
    from a(1) assms(2) show "q \<notin> set (readonly w')"
      by (simp add: wrote_def)
    from sp [OF q] assms(3) have "q \<notin> P" by blast
    with wroteD [OF assms(2), of q] a(2) show "\<not> is_file w' q"
      by (auto simp: is_file_def)
  qed
  from assms(2) nr have "p2 \<notin> set (readonly w')"
    by (simp add: wrote_def)
  with ne 1 2 show ?thesis
    by (simp add: writable_at_def)
qed

section \<open>Encoding\<close>

definition encodable :: "pystr \<Rightarrow> bool" where
  "encodable s = list_all (\<lambda>c. utf8_char c \<noteq> None) s"

lemma encodable_simps [simp]:
  "encodable []"
  "encodable (c # cs) = (utf8_char c \<noteq> None \<and> encodable cs)"
  "encodable (xs @ ys) = (encodable xs \<and> encodable ys)"
  by (simp_all add: encodable_def)

lemma encodable_iff: "encodable s \<longleftrightarrow> (\<forall>c\<in>set s. utf8_char c \<noteq> None)"
  by (simp add: encodable_def list_all_iff)

lemma utf8_encode_encodable: "utf8_encode s \<noteq> None \<longleftrightarrow> encodable s"
  by (induction s) (auto split: option.splits)

lemma utf8_char_small: "c < 0x80 \<Longrightarrow> utf8_char c = Some [char_of c]"
  by (simp add: utf8_char_def)

lemma utf8_char_NL [simp]:
  "utf8_char NL = Some [CHR 0x0A]" "utf8_char CR = Some [CHR 0x0D]"
  by code_simp+

lemma utf8_char_latin1: "c < 256 \<Longrightarrow> utf8_char c \<noteq> None"
  by (auto simp: utf8_char_def)

lemma encodable_ustr [simp]: "encodable (ustr s)"
  using utf8_char_latin1 [OF nat_of_char_less_256] by (auto simp: encodable_iff ustr_def)

lemma encodable_to_linesep [simp]: "encodable (to_linesep h s) = encodable s"
  by (induction s) (auto simp: to_linesep_def os_linesep_def)

lemma set_rstrip_nl: "set s - {NL} \<subseteq> set (rstrip_nl s) \<and> set (rstrip_nl s) \<subseteq> set s"
proof -
  obtain k where k: "s = rstrip_nl s @ replicate k NL"
    using rstrip_nl_decomp by blast
  have "set s \<subseteq> set (rstrip_nl s) \<union> {NL}"
    by (subst k) auto
  moreover have "set (rstrip_nl s) \<subseteq> set s"
    by (subst (2) k) auto
  ultimately show ?thesis by auto
qed

lemma encodable_rstrip_nl [simp]: "encodable (rstrip_nl s) = encodable s"
  using set_rstrip_nl [of s] utf8_char_NL(1) unfolding encodable_iff
  by (metis Diff_iff empty_iff insert_iff option.distinct(1) subsetD)

lemma utf8_encode_ascii:
  "list_all (\<lambda>c. of_char c < (128::nat)) s \<Longrightarrow> utf8_encode (ustr s) = Some s"
  by (induction s) (simp_all add: ustr_Cons utf8_char_small)

lemma to_linesep_posix:
  "platform_system h \<noteq> ustr ''Windows'' \<Longrightarrow> to_linesep h s = s"
  by (induction s) (auto simp: to_linesep_def os_linesep_def)

section \<open>Writing one file\<close>

lemma open_for_writing_ok:
  assumes "p \<noteq> []" "\<not> is_dir w p" "p \<notin> set (readonly w)"
    and "is_dir w (parent p)" "parent p \<notin> set (readonly w)"
  shows "open_for_writing p w = (Inr (), put_node p (File []) w)"
  using assms
  by (auto simp: open_for_writing_def is_dir_def split: option.splits node.splits)

lemma put_node_put_node [simp]: "put_node p n (put_node p m w) = put_node p n w"
  by (simp add: put_node_def)

lemma path_write_text_ok:
  assumes "p \<noteq> []" "\<not> is_dir w p" "p \<notin> set (readonly w)"
    and "is_dir w (parent p)" "parent p \<notin> set (readonly w)"
  shows "path_write_text h p s w =
           (case utf8_encode (to_linesep h s) of
              None \<Rightarrow> (Inl UnicodeEncodeError, put_node p (File []) w)
            | Some b \<Rightarrow> (Inr (), put_node p (File b) w))"
  by (simp add: path_write_text_def io_then_def io_bind_def open_for_writing_ok [OF assms]
      split: option.splits)

text \<open>
  What \<open>write_text\<close> does at a path that can be written: the directories on the way are
  made, the file is opened, and the outcome depends on the content alone.
\<close>

lemma write_text_at:
  assumes wa: "writable_at w p"
  shows "\<exists>w1. grown w (parent p) w1 \<and> node_at w1 p = node_at w p \<and>
           write_text h p c w =
             (case utf8_encode (to_linesep h (rstrip_nl c @ [NL])) of
                None \<Rightarrow> (Inl UnicodeEncodeError, put_node p (File []) w1)
              | Some b \<Rightarrow>
                  io_bind (relative_to p (home h))
                    (\<lambda>rel. py_print (ustr ''  - Created '' @ rel_str rel))
                    (put_node p (File b) w1))"
proof -
  from wa have ne: "p \<noteq> []" and nd: "\<not> is_dir w p" and nr: "p \<notin> set (readonly w)"
    and cm: "can_mkdir w (parent p)"
    by (simp_all add: writable_at_def)
  from mkdir_parents_ok [OF cm] obtain w1 where m1: "mkdir_parents (parent p) w = (Inr (), w1)"
    and d1: "is_dir w1 (parent p)" and g1: "grown w (parent p) w1" by blast
  have npp: "\<not> prefix p (parent p)"
    using prefix_parent_strict [OF ne, of p] by auto
  have "node_at w1 p = node_at w p \<or> prefix p (parent p)"
    using g1 by (auto simp: grown_def)
  with npp have n1: "node_at w1 p = node_at w p"
    by simp
  have r1: "readonly w1 = readonly w"
    using g1 by (simp add: grown_def)
  have pr: "parent p \<notin> set (readonly w)"
    using cm by (auto simp: can_mkdir_iff)
  have nd1: "\<not> is_dir w1 p"
    using nd n1 by (simp add: is_dir_def)
  have wr: "path_write_text h p s w1 =
           (case utf8_encode (to_linesep h s) of
              None \<Rightarrow> (Inl UnicodeEncodeError, put_node p (File []) w1)
            | Some b \<Rightarrow> (Inr (), put_node p (File b) w1))" for s
    using ne nd1 nr pr d1 r1 by (intro path_write_text_ok) simp_all
  have "write_text h p c w =
             (case utf8_encode (to_linesep h (rstrip_nl c @ [NL])) of
                None \<Rightarrow> (Inl UnicodeEncodeError, put_node p (File []) w1)
              | Some b \<Rightarrow>
                  io_bind (relative_to p (home h))
                    (\<lambda>rel. py_print (ustr ''  - Created '' @ rel_str rel))
                    (put_node p (File b) w1))"
    unfolding write_text_def io_seq.simps
    by (simp add: io_then_def io_bind_def m1 wr io_return_def split: option.splits prod.splits
        sum.splits)
  with g1 n1 show ?thesis by blast
qed

lemma wrote_put_file:
  assumes g1: "grown w (parent p) w1" and ne: "p \<noteq> []"
  shows "wrote w {p} (put_node p (File b) w1)"
  unfolding wrote_def
proof (intro conjI allI)
  let ?w2 = "put_node p (File b) w1"
  show "readonly ?w2 = readonly w" using g1 by (simp add: grown_def)
  show "stdin ?w2 = stdin w" using g1 by (simp add: grown_def)
  fix q
  show "node_at ?w2 q = node_at w q \<or> (q \<in> {p} \<and> is_file ?w2 q)
        \<or> (node_at w q = None \<and> node_at ?w2 q = Some Dir \<and> (\<exists>p'\<in>{p}. strict_prefix q p'))"
  proof (cases "q = p")
    case True
    then show ?thesis using ne by (simp add: is_file_def node_at_put_node)
  next
    case False
    then have e: "node_at ?w2 q = node_at w1 q"
      using ne by (simp add: node_at_put_node)
    from g1 have "node_at w1 q = node_at w q
        \<or> (node_at w q = None \<and> prefix q (parent p) \<and> node_at w1 q = Some Dir)"
      by (simp add: grown_def)
    moreover have "prefix q (parent p) \<Longrightarrow> strict_prefix q p"
      using ne by (rule prefix_parent_strict)
    ultimately show ?thesis using e by auto
  qed
qed

lemma write_text_ok:
  assumes wa: "writable_at w p" and hp: "prefix (home h) p" and en: "encodable c"
  shows "\<exists>w' b. write_text h p c w = (Inr (), w')
            \<and> utf8_encode (to_linesep h (rstrip_nl c @ [NL])) = Some b
            \<and> node_at w' p = Some (File b) \<and> wrote w {p} w'"
proof -
  from wa have ne: "p \<noteq> []"
    by (simp add: writable_at_def)
  have "encodable (to_linesep h (rstrip_nl c @ [NL]))"
    using en by (simp add: utf8_char_NL)
  then have "utf8_encode (to_linesep h (rstrip_nl c @ [NL])) \<noteq> None"
    by (simp only: utf8_encode_encodable)
  then obtain b where b: "utf8_encode (to_linesep h (rstrip_nl c @ [NL])) = Some b"
    by auto
  from write_text_at [OF wa, of h c] obtain w1 where g1: "grown w (parent p) w1"
    and run: "write_text h p c w =
                io_bind (relative_to p (home h))
                  (\<lambda>rel. py_print (ustr ''  - Created '' @ rel_str rel))
                  (put_node p (File b) w1)"
    by (auto simp: b)
  let ?w3 = "emit ((ustr ''  - Created '' @ rel_str (drop (length (home h)) p)) @ [NL])
               (put_node p (File b) w1)"
  have "write_text h p c w = (Inr (), ?w3)"
    using hp by (simp add: run relative_to_def io_bind_def io_return_def py_print_def)
  moreover have "node_at ?w3 p = Some (File b)"
    using ne by (simp add: node_at_put_node)
  moreover have "wrote w {p} ?w3"
    by (rule wrote_emit) (rule wrote_put_file [OF g1 ne])
  ultimately show ?thesis using b by blast
qed

lemma write_text_unencodable:
  assumes wa: "writable_at w p" and en: "\<not> encodable c"
  shows "\<exists>w'. write_text h p c w = (Inl UnicodeEncodeError, w')
            \<and> node_at w' p = Some (File []) \<and> wrote w {p} w'"
proof -
  from wa have ne: "p \<noteq> []"
    by (simp add: writable_at_def)
  have "\<not> encodable (to_linesep h (rstrip_nl c @ [NL]))"
    using en by (simp add: utf8_char_NL)
  then have b: "utf8_encode (to_linesep h (rstrip_nl c @ [NL])) = None"
    using utf8_encode_encodable [of "to_linesep h (rstrip_nl c @ [NL])"] by blast
  from write_text_at [OF wa, of h c] obtain w1 where g1: "grown w (parent p) w1"
    and run: "write_text h p c w = (Inl UnicodeEncodeError, put_node p (File []) w1)"
    by (auto simp: b)
  moreover have "node_at (put_node p (File []) w1) p = Some (File [])"
    using ne by (simp add: node_at_put_node)
  moreover have "wrote w {p} (put_node p (File []) w1)"
    by (rule wrote_put_file [OF g1 ne])
  ultimately show ?thesis by blast
qed

text \<open>
  C4, as amended. At a path below the home directory that can be written, \<open>write_text\<close>
  returns for every content that UTF-8 can encode, and the file then holds the encoded
  content with its trailing newlines replaced by exactly one, each newline written as
  \<open>os.linesep\<close>: the content is the written text without its last newline followed by
  newlines only, the character before the last newline, if any, is not a newline, and
  the empty content is written as one line end. Off Windows the written text is encoded
  as it is. For a content that UTF-8 cannot encode, \<open>write_text\<close> raises
  \<open>UnicodeEncodeError\<close> and leaves the file empty.
\<close>

theorem write_text_writes_normalized_content:
  assumes "writable_at w p" and "prefix (home h) p"
  shows "(encodable content \<longrightarrow>
            fst (write_text h p content w) = Inr ()
          \<and> (\<exists>b. utf8_encode (to_linesep h (rstrip_nl content @ [NL])) = Some b
                \<and> node_at (snd (write_text h p content w)) p = Some (File b)))
       \<and> (\<not> encodable content \<longrightarrow>
            fst (write_text h p content w) = Inl UnicodeEncodeError
          \<and> node_at (snd (write_text h p content w)) p = Some (File []))
       \<and> (\<exists>k. content = rstrip_nl content @ replicate k NL)
       \<and> (rstrip_nl content = [] \<or> last (rstrip_nl content) \<noteq> NL)
       \<and> (content = [] \<longrightarrow>
            node_at (snd (write_text h p content w)) p =
              Some (File (if platform_system h = ustr ''Windows''
                          then [CHR 0x0D, CHR 0x0A] else [CHR 0x0A])))
       \<and> (platform_system h \<noteq> ustr ''Windows'' \<longrightarrow>
            to_linesep h (rstrip_nl content @ [NL]) = rstrip_nl content @ [NL])"
proof -
  have 1: "encodable content \<longrightarrow>
            fst (write_text h p content w) = Inr ()
          \<and> (\<exists>b. utf8_encode (to_linesep h (rstrip_nl content @ [NL])) = Some b
                \<and> node_at (snd (write_text h p content w)) p = Some (File b))"
  proof
    assume "encodable content"
    from write_text_ok [OF assms this] obtain w' b
      where "write_text h p content w = (Inr (), w')"
        and "utf8_encode (to_linesep h (rstrip_nl content @ [NL])) = Some b"
        and "node_at w' p = Some (File b)"
      by blast
    then show "fst (write_text h p content w) = Inr ()
          \<and> (\<exists>b. utf8_encode (to_linesep h (rstrip_nl content @ [NL])) = Some b
                \<and> node_at (snd (write_text h p content w)) p = Some (File b))"
      by simp
  qed
  have 2: "\<not> encodable content \<longrightarrow>
            fst (write_text h p content w) = Inl UnicodeEncodeError
          \<and> node_at (snd (write_text h p content w)) p = Some (File [])"
  proof
    assume "\<not> encodable content"
    from write_text_unencodable [OF assms(1) this, of h] obtain w'
      where "write_text h p content w = (Inl UnicodeEncodeError, w')"
        and "node_at w' p = Some (File [])"
      by blast
    then show "fst (write_text h p content w) = Inl UnicodeEncodeError
          \<and> node_at (snd (write_text h p content w)) p = Some (File [])"
      by simp
  qed
  have 5: "content = [] \<longrightarrow>
            node_at (snd (write_text h p content w)) p =
              Some (File (if platform_system h = ustr ''Windows''
                          then [CHR 0x0D, CHR 0x0A] else [CHR 0x0A]))"
  proof
    assume e: "content = []"
    have "utf8_encode (to_linesep h (rstrip_nl [] @ [NL])) =
            Some (if platform_system h = ustr ''Windows'' then [CHR 0x0D, CHR 0x0A]
                  else [CHR 0x0A])"
      by (simp add: rstrip_nl_def to_linesep_def os_linesep_def)
    with 1 e show "node_at (snd (write_text h p content w)) p =
              Some (File (if platform_system h = ustr ''Windows''
                          then [CHR 0x0D, CHR 0x0A] else [CHR 0x0A]))"
      by auto
  qed
  have 6: "platform_system h \<noteq> ustr ''Windows'' \<longrightarrow> to_linesep h s = s" for s
    by (simp add: to_linesep_posix)
  show ?thesis
    using 1 2 5 6 rstrip_nl_decomp [of content] rstrip_nl_last [of content] by blast
qed

lemma notes_path_writable:
  "writable_at w_home [ustr ''home'', ustr ''u'', ustr ''blog'', ustr ''notes.txt'']"
  "prefix (home h_user) [ustr ''home'', ustr ''u'', ustr ''blog'', ustr ''notes.txt'']"
  by (simp_all add: writable_at_def can_mkdir_def is_dir_def is_file_def node_at_def parent_def
      w_home_def h_user_def)

lemma h_user_not_windows: "platform_system h_user \<noteq> ustr ''Windows''"
  by (simp add: h_user_def)

lemma notes_contents:
  "encodable (ustr ''hello\<newline>\<newline>\<newline>'')"
  "\<not> encodable [0xDC80]"
  "utf8_encode (to_linesep h_user (rstrip_nl (ustr ''hello\<newline>\<newline>\<newline>'') @ [NL]))
     = Some ''hello\<newline>''"
proof -
  show "encodable (ustr ''hello\<newline>\<newline>\<newline>'')"
    by simp
  show "\<not> encodable [0xDC80]"
    by (simp add: utf8_char_def)
  have "rstrip_nl (ustr ''hello\<newline>\<newline>\<newline>'') @ [NL] = ustr ''hello\<newline>''"
    by (simp add: ustr_def rstrip_nl_def NL_def)
  then show "utf8_encode (to_linesep h_user
                 (rstrip_nl (ustr ''hello\<newline>\<newline>\<newline>'') @ [NL])) = Some ''hello\<newline>''"
    by (simp add: to_linesep_posix [OF h_user_not_windows] utf8_encode_ascii)
qed

theorem write_text_writes_normalized_content_witness:
  "fst (write_text h_user [ustr ''home'', ustr ''u'', ustr ''blog'', ustr ''notes.txt'']
          (ustr ''hello\<newline>\<newline>\<newline>'') w_home) = Inr ()
   \<and> node_at (snd (write_text h_user [ustr ''home'', ustr ''u'', ustr ''blog'', ustr ''notes.txt'']
                      (ustr ''hello\<newline>\<newline>\<newline>'') w_home))
        [ustr ''home'', ustr ''u'', ustr ''blog'', ustr ''notes.txt''] = Some (File ''hello\<newline>'')
   \<and> node_at (snd (write_text h_user [ustr ''home'', ustr ''u'', ustr ''blog'', ustr ''notes.txt'']
                      [] w_home))
        [ustr ''home'', ustr ''u'', ustr ''blog'', ustr ''notes.txt''] = Some (File ''\<newline>'')"
proof -
  let ?p = "[ustr ''home'', ustr ''u'', ustr ''blog'', ustr ''notes.txt'']"
  let ?c = "ustr ''hello\<newline>\<newline>\<newline>''"
  note t1 = write_text_writes_normalized_content [OF notes_path_writable, of ?c]
  from t1 notes_contents(1) have a: "fst (write_text h_user ?p ?c w_home) = Inr ()"
    by blast
  from t1 notes_contents(1) obtain b
    where "utf8_encode (to_linesep h_user (rstrip_nl ?c @ [NL])) = Some b"
      and "node_at (snd (write_text h_user ?p ?c w_home)) ?p = Some (File b)"
    by blast
  with notes_contents(3)
  have b: "node_at (snd (write_text h_user ?p ?c w_home)) ?p = Some (File ''hello\<newline>'')"
    by simp
  note t2 = write_text_writes_normalized_content [OF notes_path_writable, of "[]"]
  from t2 have "node_at (snd (write_text h_user ?p [] w_home)) ?p =
      Some (File (if platform_system h_user = ustr ''Windows''
                  then [CHR 0x0D, CHR 0x0A] else [CHR 0x0A]))"
    by blast
  with h_user_not_windows
  have c: "node_at (snd (write_text h_user ?p [] w_home)) ?p = Some (File ''\<newline>'')"
    by simp
  from a b c show ?thesis
    by (intro conjI)
qed

text \<open>
  The claim as stated fails: a content that is one lone surrogate, as \<open>input\<close> returns
  for an undecodable byte, makes \<open>write_text\<close> raise, and the file it leaves ends in no
  newline.
\<close>

theorem write_text_lone_surrogate_leaves_empty_file:
  "fst (write_text h_user [ustr ''home'', ustr ''u'', ustr ''blog'', ustr ''notes.txt'']
          [0xDC80] w_home) = Inl UnicodeEncodeError
   \<and> node_at (snd (write_text h_user [ustr ''home'', ustr ''u'', ustr ''blog'', ustr ''notes.txt'']
                      [0xDC80] w_home))
        [ustr ''home'', ustr ''u'', ustr ''blog'', ustr ''notes.txt''] = Some (File [])"
proof -
  from write_text_unencodable [OF notes_path_writable(1) notes_contents(2), of h_user]
  obtain w' where
    "write_text h_user [ustr ''home'', ustr ''u'', ustr ''blog'', ustr ''notes.txt'']
       [0xDC80] w_home = (Inl UnicodeEncodeError, w')"
    and "node_at w' [ustr ''home'', ustr ''u'', ustr ''blog'', ustr ''notes.txt'']
           = Some (File [])"
    by blast
  then show ?thesis by simp
qed

section \<open>Writing a catalog\<close>

lemmas catalog_defs = catalog_def catalog_top_level_files_def catalog_config_and_main_def
    catalog_models_forms_email_errors_def catalog_utils_def catalog_routes_def
    catalog_templates_def catalog_static_def

lemmas joinpath_defs = joinpath_def path_join_def path_parts_def startswith_def ustr_Cons


lemma prefix_free_iff:
  "prefix_free ps \<longleftrightarrow> (\<forall>p\<in>set ps. \<forall>q\<in>set ps. \<not> strict_prefix p q)"
  by (simp add: prefix_free_def list_all_iff)

lemma write_all_Nil [simp]: "write_all h [] = io_return ()"
  by (simp add: write_all_def)

lemma write_all_Cons:
  "write_all h ((p, c) # es) = io_then (write_text h p c) (write_all h es)"
  by (simp add: write_all_def)

lemma io_then_return [simp]: "io_then (io_return x) k = k"
  by (rule ext) (simp add: io_then_def io_bind_def io_return_def)


lemma io_then_return_unit: "io_then m (io_return ()) = (m :: unit io)"
  by (rule ext) (auto simp: io_then_def io_bind_def io_return_def split: prod.splits sum.splits)

lemma io_then_assoc: "io_then (io_then m k) l = io_then m (io_then k l)"
  by (rule ext) (simp add: io_then_def io_bind_def split: prod.splits sum.splits)

lemma write_all_append_then:
  "io_then (write_all h (xs @ ys)) k = io_then (write_all h xs) (io_then (write_all h ys) k)"
proof (induction xs)
  case Nil
  show ?case by simp
next
  case (Cons e xs)
  obtain p c where e: "e = (p, c)" by (cases e)
  have "io_then (write_all h ((e # xs) @ ys)) k
        = io_then (write_text h p c) (io_then (write_all h (xs @ ys)) k)"
    by (simp only: e append_Cons write_all_Cons io_then_assoc)
  also have "\<dots> = io_then (write_text h p c) (io_then (write_all h xs) (io_then (write_all h ys) k))"
    by (simp only: Cons.IH)
  also have "\<dots> = io_then (write_all h (e # xs)) (io_then (write_all h ys) k)"
    by (simp only: e write_all_Cons io_then_assoc)
  finally show ?case .
qed

lemma below_append: "below root (xs @ ys) = below root xs @ below root ys"
  by (simp add: below_def)

lemma write_all_ok:
  assumes "\<forall>p\<in>set (map fst es). writable_at w p \<and> prefix (home h) p"
    and "prefix_free (map fst es)"
    and "\<forall>c\<in>set (map snd es). encodable c"
  shows "\<exists>w'. write_all h es w = (Inr (), w') \<and> wrote w (set (map fst es)) w'
             \<and> (distinct (map fst es) \<longrightarrow>
                  (\<forall>(p, c)\<in>set es. written h c w' p))"
  using assms
proof (induction es arbitrary: w)
  case Nil
  show ?case by (simp add: io_return_def wrote_refl)
next
  case (Cons e es)
  obtain p c where e: "e = (p, c)" by (cases e)
  from Cons.prems(1) have wp: "writable_at w p" and hp: "prefix (home h) p"
    by (simp_all add: e)
  from Cons.prems(3) have en: "encodable c"
    by (simp add: e)
  from write_text_ok [OF wp hp en] obtain w1
    where r1: "write_text h p c w = (Inr (), w1)"
      and n1: "written h c w1 p"
      and g1: "wrote w {p} w1" by (auto simp: written_def)
  have pf: "\<forall>q\<in>set (map fst es). \<not> strict_prefix p q \<and> \<not> strict_prefix q p"
    using Cons.prems(2) by (auto simp: prefix_free_iff e)
  have a1: "\<forall>q\<in>set (map fst es). writable_at w1 q \<and> prefix (home h) q"
  proof
    fix q assume q: "q \<in> set (map fst es)"
    with Cons.prems(1) have wq: "writable_at w q" and hq: "prefix (home h) q"
      by auto
    from bspec [OF pf q] have "\<forall>p'\<in>{p}. \<not> strict_prefix p' q \<and> \<not> strict_prefix q p'"
      by simp
    with wq g1 have "writable_at w1 q"
      by (rule wrote_writable)
    with hq show "writable_at w1 q \<and> prefix (home h) q" by simp
  qed
  have a2: "prefix_free (map fst es)"
    using Cons.prems(2) by (auto simp: prefix_free_iff)
  have a3: "\<forall>c\<in>set (map snd es). encodable c"
    using Cons.prems(3) by simp
  from Cons.IH [OF a1 a2 a3] obtain w' where r2: "write_all h es w1 = (Inr (), w')"
    and g2: "wrote w1 (set (map fst es)) w'"
    and c2: "distinct (map fst es) \<longrightarrow> (\<forall>(p, c)\<in>set es. written h c w' p)"
    by blast
  have run: "write_all h (e # es) w = (Inr (), w')"
    by (simp add: e write_all_Cons io_then_def io_bind_def r1 r2)
  have g: "wrote w (set (map fst (e # es))) w'"
    using wrote_trans [OF g1 g2] by (simp add: e)
  have "written h c w' p" if "p \<notin> set (map fst es)"
    using wroteD [OF g2, of p] that pf n1
    by (auto simp: written_def split: option.splits)
  with c2 have "distinct (map fst (e # es)) \<longrightarrow> (\<forall>(p, c)\<in>set (e # es). written h c w' p)"
    by (auto simp: e)
  with run g show ?case by blast
qed

section \<open>The scaffold functions write the catalog\<close>


lemma scaffold_top_level_files_catalog:
  "scaffold_top_level_files h root pn d a up =
     write_all h (below root (catalog_top_level_files pn d a))"
  by (simp add: scaffold_top_level_files_def write_all_def below_def
      catalog_top_level_files_def joinpath_defs)

lemma scaffold_config_and_main_catalog:
  "scaffold_config_and_main h root = write_all h (below root catalog_config_and_main)"
  by (simp add: scaffold_config_and_main_def write_all_def below_def catalog_config_and_main_def
      joinpath_defs)

lemma scaffold_models_forms_email_errors_catalog:
  "scaffold_models_forms_email_errors h root =
     write_all h (below root catalog_models_forms_email_errors)"
  by (simp add: scaffold_models_forms_email_errors_def write_all_def below_def
      catalog_models_forms_email_errors_def joinpath_defs)

lemma scaffold_utils_catalog:
  "scaffold_utils h root = write_all h (below root catalog_utils)"
  by (simp add: scaffold_utils_def write_all_def below_def catalog_utils_def joinpath_defs)

lemma scaffold_routes_catalog:
  "scaffold_routes h root = write_all h (below root catalog_routes)"
  by (simp add: scaffold_routes_def write_all_def below_def catalog_routes_def joinpath_defs)

lemma scaffold_templates_catalog:
  "scaffold_templates h root = write_all h (below root catalog_templates)"
  by (simp add: scaffold_templates_def write_all_def below_def catalog_templates_def
      joinpath_defs)

lemma scaffold_static_catalog:
  "scaffold_static h root = write_all h (below root catalog_static)"
  by (simp add: scaffold_static_def write_all_def below_def catalog_static_def joinpath_defs)

lemma write_requirements_catalog:
  "write_requirements h root = write_all h (below root [([(ustr ''requirements.txt'')], requirements)])"
  by (simp add: write_requirements_def write_all_def below_def joinpath_defs
      io_then_return_unit)

lemma main_scaffold_catalog:
  "main_scaffold h option root pn d a =
     io_then (py_print (ustr ''\<newline>Scaffolding Flask project structure...\<newline>''))
       (io_then (write_all h (below root (catalog pn d a)))
          (io_then (if option = (ustr ''1'') then main_poetry h root pn d a
                    else write_requirements h root)
             (main_summary root (option = (ustr ''1'')))))"
  unfolding main_scaffold_def Let_def io_seq.simps
    scaffold_top_level_files_catalog scaffold_config_and_main_catalog
    scaffold_models_forms_email_errors_catalog scaffold_utils_catalog scaffold_routes_catalog
    scaffold_templates_catalog scaffold_static_catalog
  by (simp add: catalog_def below_append write_all_append_then io_then_assoc
      io_then_return_unit)

lemma catalog_prefix_free:
  "prefix_free (map fst (catalog pn d a @ [([(ustr ''requirements.txt'')], r), ([(ustr ''pyproject.toml'')], t)]))"
  unfolding catalog_defs prefix_free_def by simp

lemma catalog_distinct:
  "distinct (map fst (catalog pn d a @ [([(ustr ''requirements.txt'')], r), ([(ustr ''pyproject.toml'')], t)]))"
  unfolding catalog_defs by simp

section \<open>Prompts and the unchanged file system\<close>



lemma prompt_with_default_eof:
  "stdin w = [] \<Longrightarrow> fst (prompt_with_default prompt dflt w) = Inl EOFError"
  by (simp add: prompt_with_default_def io_bind_def py_input_def)

lemma same_files_refl [simp]: "same_files w w"
  by (simp add: same_files_def)

lemma same_files_trans: "same_files w w1 \<Longrightarrow> same_files w1 w2 \<Longrightarrow> same_files w w2"
  by (simp add: same_files_def)

lemma same_files_emit [simp]: "same_files w (emit s w)"
  by (simp add: same_files_def)

lemma same_files_stdin [simp]: "same_files w (w'\<lparr>stdin := ls\<rparr>) = same_files w w'"
  by (simp add: same_files_def)

lemma same_files_emit' [simp]: "same_files w (emit s w') = same_files w w'"
  by (simp add: same_files_def)

lemma same_files_node_at: "same_files w w' \<Longrightarrow> node_at w' p = node_at w p"
  by (simp add: same_files_def node_at_def)

lemma same_files_preds:
  assumes "same_files w w'"
  shows "is_dir w' p = is_dir w p" "is_file w' p = is_file w p"
    "path_exists w' p = path_exists w p" "can_mkdir w' p = can_mkdir w p"
    "writable_at w' p = writable_at w p" "nothing_below w' p = nothing_below w p"
    "empty_dir w' p = empty_dir w p"
  using assms
  by (simp_all add: same_files_def is_dir_def is_file_def path_exists_def can_mkdir_def
      writable_at_def nothing_below_def empty_dir_def node_at_def)

lemma prompt_choice_skip:
  assumes "\<forall>b\<in>set bad. py_strip b \<notin> set (map fst choices)"
    and "py_strip l \<in> set (map fst choices)"
    and "stdin w = bad @ l # rest"
  shows "\<exists>w'. prompt_choice prompt choices w = (Inr (py_strip l), w')
            \<and> stdin w' = rest \<and> same_files w w'"
  using assms
proof (induction bad arbitrary: w)
  case Nil
  then show ?case
    by (subst prompt_choice.simps) (simp add: py_input_def Let_def)
next
  case (Cons b bad)
  let ?w1 = "emit ((ustr ''Invalid choice, please try again.\<newline>'') @ [NL])
               ((emit (ustr ''Enter choice: '') (emit (choices_text prompt choices) w))\<lparr>stdin := bad @ l # rest\<rparr>)"
  have 1: "prompt_choice prompt choices w = prompt_choice prompt choices ?w1"
    using Cons.prems by (subst prompt_choice.simps) (simp add: py_input_def Let_def)
  have "stdin ?w1 = bad @ l # rest"
    by simp
  from Cons.IH [OF _ Cons.prems(2) this] Cons.prems(1)
  obtain w' where "prompt_choice prompt choices ?w1 = (Inr (py_strip l), w')"
    and "stdin w' = rest" and "same_files ?w1 w'"
    by auto
  with 1 show ?case
    by (auto simp: same_files_def)
qed

lemma prompt_choice_eof:
  assumes "\<forall>b\<in>set bad. py_strip b \<notin> set (map fst choices)" and "stdin w = bad"
  shows "fst (prompt_choice prompt choices w) = Inl EOFError"
  using assms
proof (induction bad arbitrary: w)
  case Nil
  then show ?case
    by (subst prompt_choice.simps) (simp add: py_input_def)
next
  case (Cons b bad)
  then show ?case
    by (subst prompt_choice.simps) (simp add: py_input_def Let_def)
qed

lemma print_header_run: "\<exists>w'. print_header w = (Inr (), w') \<and> stdin w' = stdin w \<and> same_files w w'"
  by (simp add: print_header_def io_then_def io_bind_def py_print_def io_return_def)

lemma show_prereq_instructions_run:
  "\<exists>w'. show_prereq_instructions k w = (Inr (), w') \<and> stdin w' = stdin w \<and> same_files w w'"
  by (simp add: show_prereq_instructions_def io_then_def io_bind_def py_print_def io_return_def)



section \<open>Prerequisites\<close>

lemma emit_emit: "emit b (emit a w) = emit (a @ b) w"
  by (simp add: emit_def)

lemma ensure_prereqs_run:
  "ensure_prereqs h (option_key wk) w =
     (Inr (missing_tools h wk = []),
      if missing_tools h wk = [] then emit ((ustr ''Environment checks passed.'') @ [NL]) w
      else snd (show_prereq_instructions (option_key wk)
                  (emit (concat (map (\<lambda>t. missing_report t @ [NL]) (missing_tools h wk))) w)))"
proof -
  have s: "show_prereq_instructions k v = (Inr (), snd (show_prereq_instructions k v))" for k v
    using show_prereq_instructions_run [of k v] by auto
  have t: "io_then (show_prereq_instructions k) (io_return False) v
             = (Inr False, snd (show_prereq_instructions k v))" for k v
    by (subst io_then_Inr [OF s]) (simp add: io_return_def)
  show ?thesis
    by (cases wk; cases "check_pyenv h"; cases "check_poetry h";
        cases "check_pyenv_virtualenv h")
      (simp_all add: ensure_prereqs_def missing_tools_def io_bind_def io_return_def
        py_print_def emit_emit t io_then_def [of "py_print _"])
qed

text \<open>
  C3. For each workflow, \<open>ensure_prereqs\<close> returns false exactly when a required tool of
  the workflow is not available on the host, and then reports the missing tools, each
  by its line, in the order pyenv, Poetry or pyenv-virtualenv, before the general
  instructions; with nothing missing it prints that the checks passed.
\<close>

theorem ensure_prereqs_reports_missing_tools:
  "ensure_prereqs h (option_key wk) w =
     (Inr (missing_tools h wk = []),
      if missing_tools h wk = [] then emit ((ustr ''Environment checks passed.'') @ [NL]) w
      else snd (show_prereq_instructions (option_key wk)
                  (emit (concat (map (\<lambda>t. missing_report t @ [NL]) (missing_tools h wk))) w)))
   \<and> (missing_tools h wk \<noteq> [] \<longleftrightarrow> (\<exists>t\<in>set (required_tools wk). \<not> tool_available h t))
   \<and> set (missing_tools h wk) = {t \<in> set (required_tools wk). \<not> tool_available h t}"
proof -
  have "missing_tools h wk \<noteq> [] \<longleftrightarrow> (\<exists>t\<in>set (required_tools wk). \<not> tool_available h t)"
    by (simp add: missing_tools_def filter_empty_conv)
  moreover have "set (missing_tools h wk) = {t \<in> set (required_tools wk). \<not> tool_available h t}"
    by (simp add: missing_tools_def)
  ultimately show ?thesis
    using ensure_prereqs_run [of h wk w] by simp
qed

theorem ensure_prereqs_reports_missing_tools_witness:
  "ensure_prereqs h_no_poetry (ustr ''1'') w_home =
     (Inr False,
      snd (show_prereq_instructions (ustr ''1'') (emit ((ustr ''- Poetry not found on PATH.'') @ [NL]) w_home)))
   \<and> ensure_prereqs h_no_plugin (ustr ''2'') w_home =
     (Inr False,
      snd (show_prereq_instructions (ustr ''2'')
             (emit ((ustr ''- pyenv-virtualenv plugin does not appear to be installed.'') @ [NL]) w_home)))
   \<and> ensure_prereqs h_user (ustr ''2'') w_home =
     (Inr True, emit ((ustr ''Environment checks passed.'') @ [NL]) w_home)"
  using ensure_prereqs_reports_missing_tools [of h_no_poetry PoetryManaged w_home]
    ensure_prereqs_reports_missing_tools [of h_no_plugin RequirementsFileManaged w_home]
    ensure_prereqs_reports_missing_tools [of h_user RequirementsFileManaged w_home]
  by (simp add: missing_tools_def h_no_poetry_def h_no_plugin_def h_user_def check_pyenv_def
      check_poetry_def check_pyenv_virtualenv_def have_command_def)

section \<open>The project directory\<close>

lemma iterdir_entries:
  "is_dir w p \<Longrightarrow>
   iterdir p w = (Inr (filter (\<lambda>q. q \<noteq> [] \<and> parent q = p) (map fst (fs w))), w)"
  by (simp add: iterdir_def is_dir_def)

lemma ensure_project_dir_conflict_run:
  assumes d: "is_dir w (path_join (home h) name)"
    and e: "\<exists>q\<in>set (map fst (fs w)). q \<noteq> [] \<and> parent q = path_join (home h) name"
    and i: "stdin w = line # rest"
  shows "\<exists>w'. ensure_project_dir h name w =
            (if py_lower h (py_strip line) \<in> set [(ustr ''''), (ustr ''y''), (ustr ''yes'')] then Inl (SystemExit 1)
             else Inr (path_join (home h) name), w')
          \<and> same_files w w' \<and> stdin w' = rest"
proof -
  let ?root = "path_join (home h) name"
  from e have ne: "filter (\<lambda>q. q \<noteq> [] \<and> parent q = ?root) (map fst (fs w)) \<noteq> []"
    by (auto simp: filter_empty_conv)
  from d have ex: "path_exists w ?root"
    by (simp add: path_exists_def is_dir_def)
  show ?thesis
    using ne ex i
    by (simp add: ensure_project_dir_def Let_def iterdir_entries [OF d]
        io_then_def io_bind_def py_print_def py_input_def sys_exit_def io_raise_def io_return_def
        same_files_def)
qed

text \<open>
  C1, as amended. When the target directory exists and has an entry,
  \<open>ensure_project_dir\<close> asks one question and reads one line: it exits with status 1
  exactly when the line, stripped and in lower case, is empty, \<open>y\<close> or \<open>yes\<close>; on
  every other line it returns the directory, and the run goes on to write into it. The
  file system is as before in both cases.
\<close>

theorem ensure_project_dir_conflict_answer:
  assumes "is_dir w (path_join (home h) name)"
    and "\<exists>q\<in>set (map fst (fs w)). q \<noteq> [] \<and> parent q = path_join (home h) name"
    and "stdin w = line # rest"
  shows "fst (ensure_project_dir h name w) =
           (if py_lower h (py_strip line) \<in> set [(ustr ''''), (ustr ''y''), (ustr ''yes'')] then Inl (SystemExit 1)
            else Inr (path_join (home h) name))
       \<and> same_files w (snd (ensure_project_dir h name w))
       \<and> stdin (snd (ensure_project_dir h name w)) = rest"
  using ensure_project_dir_conflict_run [OF assms] by auto

lemma w_blog_taken_root: "path_join (home h_user) (ustr ''blog'') = [(ustr ''home''), (ustr ''u''), (ustr ''blog'')]"
  by (simp add: h_user_def joinpath_defs)

lemma w_blog_taken_is_dir:
  "is_dir (w_blog_taken\<lparr>stdin := ls\<rparr>) (path_join (home h_user) (ustr ''blog''))"
  by (simp add: w_blog_taken_root) (simp add: w_blog_taken_def is_dir_def node_at_def)

lemma w_blog_taken_entry:
  "\<exists>q\<in>set (map fst (fs (w_blog_taken\<lparr>stdin := ls\<rparr>))).
      q \<noteq> [] \<and> parent q = path_join (home h_user) (ustr ''blog'')"
  unfolding w_blog_taken_root by (simp add: w_blog_taken_def parent_def)

lemma w_blog_taken_stdin: "stdin (w_blog_taken\<lparr>stdin := [l]\<rparr>) = l # []"
  by simp

lemma answers_eval:
  "py_lower h (py_strip (ustr '' YES '')) = (ustr ''yes'')"
  "py_lower h (py_strip (ustr ''n'')) = (ustr ''n'')"
  "py_lower h (py_strip (ustr ''maybe'')) = (ustr ''maybe'')"
  "py_lower h (py_strip []) = []"
  by (simp_all add: py_lower_def latin1_def ustr_def py_strip_def is_space_def lower_char_def)

theorem ensure_project_dir_conflict_answer_witness:
  "fst (ensure_project_dir h_user (ustr ''blog'') (w_blog_taken\<lparr>stdin := [(ustr '' YES '')]\<rparr>))
     = Inl (SystemExit 1)
   \<and> fst (ensure_project_dir h_user (ustr ''blog'') (w_blog_taken\<lparr>stdin := [(ustr ''n'')]\<rparr>))
     = Inr [(ustr ''home''), (ustr ''u''), (ustr ''blog'')]"
proof -
  have "fst (ensure_project_dir h_user (ustr ''blog'') (w_blog_taken\<lparr>stdin := [(ustr '' YES '')]\<rparr>))
          = Inl (SystemExit 1)"
    using ensure_project_dir_conflict_answer
      [OF w_blog_taken_is_dir w_blog_taken_entry w_blog_taken_stdin, of "(ustr '' YES '')"]
    by (simp only: answers_eval) simp
  moreover
  have "fst (ensure_project_dir h_user (ustr ''blog'') (w_blog_taken\<lparr>stdin := [(ustr ''n'')]\<rparr>))
          = Inr [(ustr ''home''), (ustr ''u''), (ustr ''blog'')]"
    using ensure_project_dir_conflict_answer
      [OF w_blog_taken_is_dir w_blog_taken_entry w_blog_taken_stdin, of "(ustr ''n'')"]
    by (simp only: answers_eval w_blog_taken_root) simp
  ultimately show ?thesis ..
qed

text \<open>
  The claim as stated fails: the answer \<open>maybe\<close> is no consent to continue, and
  \<open>ensure_project_dir\<close> returns the directory instead of exiting.
\<close>

theorem ensure_project_dir_ambiguous_answer_proceeds:
  "fst (ensure_project_dir h_user (ustr ''blog'') (w_blog_taken\<lparr>stdin := [(ustr ''maybe'')]\<rparr>))
     = Inr [(ustr ''home''), (ustr ''u''), (ustr ''blog'')]"
proof -
  from ensure_project_dir_conflict_run
      [OF w_blog_taken_is_dir w_blog_taken_entry w_blog_taken_stdin, of "(ustr ''maybe'')"]
  obtain w' where "ensure_project_dir h_user (ustr ''blog'') (w_blog_taken\<lparr>stdin := [(ustr ''maybe'')]\<rparr>)
      = (if py_lower h_user (py_strip (ustr ''maybe'')) \<in> set [(ustr ''''), (ustr ''y''), (ustr ''yes'')] then Inl (SystemExit 1)
         else Inr (path_join (home h_user) (ustr ''blog'')), w')"
    by blast
  then show ?thesis
    by (simp only: answers_eval w_blog_taken_root) simp
qed

section \<open>The licence identifier\<close>




end
